theory Spec2Isabelle
  imports Main
begin

section \<open>Values the script computes with\<close>

text \<open>
  The script \<^verbatim>\<open>auto_sqlServerBackup.py\<close> talks to four collaborators: the system
  clock, the filesystem, the ODBC driver and an SMTP relay. Each of them is modelled as
  an oracle of the environment (what the collaborator answers) together with a piece of
  state (what the script has done to it). Every exception the source can raise is a
  value; every function returns its result together with the new state.
\<close>

subsection \<open>Clock readings\<close>

text \<open>
  A reading of \<^verbatim>\<open>datetime.datetime.now()\<close>. The fields of a Python \<^verbatim>\<open>datetime\<close>
  are positive integers in fixed ranges, so they are naturals here.
\<close>

record datetime =
  dt_year :: nat
  dt_month :: nat
  dt_day :: nat
  dt_hour :: nat
  dt_minute :: nat
  dt_second :: nat
  dt_microsecond :: nat

text \<open>\<^verbatim>\<open>datetime.date.today()\<close> keeps the calendar day of a reading.\<close>

record date =
  d_year :: nat
  d_month :: nat
  d_day :: nat

definition date_of :: "datetime \<Rightarrow> date" where
  "date_of t = \<lparr>d_year = dt_year t, d_month = dt_month t, d_day = dt_day t\<rparr>"

text \<open>
  The ranges Python guarantees for every \<^verbatim>\<open>datetime\<close> object (MINYEAR = 1,
  MAXYEAR = 9999; the day bound is the coarse one, which is all the formatting needs).
\<close>

definition valid_date :: "date \<Rightarrow> bool" where
  "valid_date d =
     (1 \<le> d_year d \<and> d_year d \<le> 9999 \<and> 1 \<le> d_month d \<and> d_month d \<le> 12
      \<and> 1 \<le> d_day d \<and> d_day d \<le> 31)"

definition valid_datetime :: "datetime \<Rightarrow> bool" where
  "valid_datetime t =
     (valid_date (date_of t) \<and> dt_hour t < 24 \<and> dt_minute t < 60 \<and> dt_second t < 60
      \<and> dt_microsecond t < 1000000)"

subsection \<open>Decimal strings\<close>

text \<open>The character of the last decimal digit of a number (\<open>48\<close> is the code of \<open>0\<close>).\<close>

definition digit_char :: "nat \<Rightarrow> char" where
  "digit_char n = char_of (48 + n mod 10)"

text \<open>Python's \<^verbatim>\<open>str\<close> on a non-negative integer.\<close>

function str_nat :: "nat \<Rightarrow> string" where
  "str_nat n = (if n < 10 then [digit_char n] else str_nat (n div 10) @ [digit_char n])"
  by pat_completeness auto
termination
  by (relation "measure (\<lambda>n. n)") auto

declare str_nat.simps [simp del]

text \<open>
  \<^verbatim>\<open>s.zfill(w)\<close> on a string of digits (the sign handling of \<^verbatim>\<open>zfill\<close> never applies:
  the script pads month and day numbers only).
\<close>

definition zfill :: "nat \<Rightarrow> string \<Rightarrow> string" where
  "zfill w s = replicate (w - length s) (CHR ''0'') @ s"

text \<open>
  \<^verbatim>\<open>strftime('%Y%m%d_%H%M%S')\<close>: four digits of year, two of every other field, as the
  Python documentation states the directives (the microsecond is not printed).
\<close>

definition strftime_Ymd :: "datetime \<Rightarrow> string" where
  "strftime_Ymd t =
     zfill 4 (str_nat (dt_year t)) @ zfill 2 (str_nat (dt_month t)) @ zfill 2 (str_nat (dt_day t))"

definition strftime_HMS :: "datetime \<Rightarrow> string" where
  "strftime_HMS t =
     zfill 2 (str_nat (dt_hour t)) @ zfill 2 (str_nat (dt_minute t))
       @ zfill 2 (str_nat (dt_second t))"

definition strftime_Ymd_HMS :: "datetime \<Rightarrow> string" where
  "strftime_Ymd_HMS t = strftime_Ymd t @ ''_'' @ strftime_HMS t"

text \<open>Reading a string of decimal digits back, to show that the formatting loses nothing.\<close>

definition nat_of_digits :: "string \<Rightarrow> nat" where
  "nat_of_digits s = foldl (\<lambda>a c. 10 * a + (of_char c - 48)) 0 s"

subsection \<open>Paths\<close>

text \<open>
  \<^verbatim>\<open>os.path.join(a, b)\<close> of \<^verbatim>\<open>posixpath\<close>: an absolute second argument replaces the
  first; otherwise a separator is inserted unless the first is empty or already ends
  with one.
\<close>

definition os_path_join :: "string \<Rightarrow> string \<Rightarrow> string" where
  "os_path_join a b =
     (if b \<noteq> [] \<and> hd b = CHR ''/'' then b
      else if a = [] \<or> last a = CHR ''/'' then a @ b
      else a @ ''/'' @ b)"

text \<open>
  How the operating system reads a path string: whether it starts at the root, and its
  non-empty components, innermost first. (Symbolic links and the components \<^verbatim>\<open>.\<close> and
  \<^verbatim>\<open>..\<close> are not interpreted.)
\<close>

type_synonym key = "bool \<times> string list"

definition push :: "string \<Rightarrow> string list \<Rightarrow> string list" where
  "push cur done = (if cur = [] then done else cur # done)"

definition scan_step :: "string \<times> string list \<Rightarrow> char \<Rightarrow> string \<times> string list" where
  "scan_step st c =
     (if c = CHR ''/'' then ([], push (fst st) (snd st)) else (fst st @ [c], snd st))"

definition components :: "string \<Rightarrow> string list" where
  "components p = (let st = foldl scan_step ([], []) p in push (fst st) (snd st))"

definition isabs :: "string \<Rightarrow> bool" where
  "isabs p = (p \<noteq> [] \<and> hd p = CHR ''/'')"

definition resolve :: "string \<Rightarrow> key" where
  "resolve p = (isabs p, components p)"

text \<open>The path string of a key, for error messages.\<close>

fun render_components :: "string list \<Rightarrow> string" where
  "render_components [] = []"
| "render_components [c] = c"
| "render_components (c # par) = render_components par @ ''/'' @ c"

definition render :: "key \<Rightarrow> string" where
  "render k = (if fst k then ''/'' else []) @ render_components (snd k)"

subsection \<open>Exceptions\<close>

text \<open>
  The exceptions that reach the script. \<open>OSError\<close> carries the errno class and the path;
  \<open>LibraryError\<close> stands for what the ODBC driver and \<^verbatim>\<open>smtplib\<close> raise
  (\<^verbatim>\<open>pyodbc.Error\<close>, \<^verbatim>\<open>smtplib.SMTPException\<close>, socket errors), with the text that
  \<^verbatim>\<open>str(e)\<close> gives; \<open>UnboundLocalError\<close> is what reading a local variable raises before
  it is assigned. All of them are subclasses of \<^verbatim>\<open>Exception\<close>, which is what every
  \<^verbatim>\<open>except\<close> clause of the script catches.
\<close>

datatype os_errno = FileExistsError | FileNotFoundError | NotADirectoryError | PermissionError

datatype exn = OSError os_errno key | LibraryError string | UnboundLocalError string

fun strerror :: "os_errno \<Rightarrow> string" where
  "strerror FileExistsError = ''[Errno 17] File exists''"
| "strerror FileNotFoundError = ''[Errno 2] No such file or directory''"
| "strerror NotADirectoryError = ''[Errno 20] Not a directory''"
| "strerror PermissionError = ''[Errno 13] Permission denied''"

text \<open>\<^verbatim>\<open>str(e)\<close>, which is what \<^verbatim>\<open>f"{e}"\<close> prints.\<close>

fun str_exn :: "exn \<Rightarrow> string" where
  "str_exn (OSError k p) = strerror k @ '': '' @ [CHR 0x27] @ render p @ [CHR 0x27]"
| "str_exn (LibraryError t) = t"
| "str_exn (UnboundLocalError v) =
     ''cannot access local variable '' @ [CHR 0x27] @ v @ [CHR 0x27]
       @ '' where it is not associated with a value''"

fun is_OSError :: "exn \<Rightarrow> bool" where
  "is_OSError (OSError k p) = True"
| "is_OSError e = False"

section \<open>The environment and the state\<close>

datatype node = File | Dir

datatype db_call = Connect string | Cursor nat | Execute nat string | Commit nat | Close nat

record email =
  em_subject :: string
  em_body :: string
  em_from :: string
  em_to :: string
  em_server :: string
  em_port :: nat
  em_user :: string
  em_password :: string

datatype level = INFO | ERROR

text \<open>
  What the collaborators answer. \<open>clock n\<close> is the \<open>n\<close>-th reading of the system clock;
  \<open>deny k\<close> says that the filesystem refuses to create \<open>k\<close>; the other fields give the
  exception a library call raises, \<open>None\<close> when it succeeds.
\<close>

record env =
  clock :: "nat \<Rightarrow> datetime"
  deny :: "key \<Rightarrow> bool"
  db_connect :: "string \<Rightarrow> exn option"
  db_cursor :: "nat \<Rightarrow> exn option"
  db_execute :: "string \<Rightarrow> exn option"
  db_commit :: "nat \<Rightarrow> exn option"
  db_close :: "nat \<Rightarrow> exn option"
  smtp_connect :: "string \<Rightarrow> nat \<Rightarrow> exn option"
  smtp_starttls :: "exn option"
  smtp_login :: "string \<Rightarrow> string \<Rightarrow> exn option"
  smtp_sendmail :: "email \<Rightarrow> exn option"
  smtp_quit :: "exn option"

text \<open>
  What the script has done: the clock readings taken, the filesystem entries, the
  connections that are open, the calls made to the driver, the notifications attempted
  (calls of \<^verbatim>\<open>send_email_notification\<close>) and handed to the relay, and the log file.
\<close>

record state =
  ticks :: nat
  entries :: "key \<Rightarrow> node option"
  next_conn :: nat
  open_conns :: "nat list"
  db_calls :: "db_call list"
  attempts :: "email list"
  delivered :: "email list"
  logfile :: "(level \<times> string) list"

definition logging_info :: "string \<Rightarrow> state \<Rightarrow> state" where
  "logging_info msg s = s\<lparr>logfile := logfile s @ [(INFO, msg)]\<rparr>"

definition logging_error :: "string \<Rightarrow> state \<Rightarrow> state" where
  "logging_error msg s = s\<lparr>logfile := logfile s @ [(ERROR, msg)]\<rparr>"

definition read_clock :: "env \<Rightarrow> state \<Rightarrow> datetime \<times> state" where
  "read_clock E s = (clock E (ticks s), s\<lparr>ticks := Suc (ticks s)\<rparr>)"

section \<open>The filesystem\<close>

text \<open>
  An entry is visible only below directories: \<open>lookup\<close> walks from the root (or from the
  working directory, for a relative path), which always exists.
\<close>

fun lookup :: "(key \<Rightarrow> node option) \<Rightarrow> key \<Rightarrow> node option" where
  "lookup fs (ab, []) = Some Dir"
| "lookup fs (ab, c # par) =
     (case lookup fs (ab, par) of Some Dir \<Rightarrow> fs (ab, c # par) | _ \<Rightarrow> None)"

text \<open>\<^verbatim>\<open>os.path.exists\<close>: true for a file as well as for a directory.\<close>

definition os_path_exists :: "state \<Rightarrow> string \<Rightarrow> bool" where
  "os_path_exists s p = (lookup (entries s) (resolve p) \<noteq> None)"

text \<open>
  \<^verbatim>\<open>os.mkdir\<close>: the parent must be a directory, the name must be free, and the
  filesystem must allow the creation.
\<close>

fun os_mkdir :: "env \<Rightarrow> key \<Rightarrow> state \<Rightarrow> (exn + unit) \<times> state" where
  "os_mkdir E (ab, []) s = (Inl (OSError FileExistsError (ab, [])), s)"
| "os_mkdir E (ab, c # par) s =
     (case lookup (entries s) (ab, par) of
        None \<Rightarrow> (Inl (OSError FileNotFoundError (ab, c # par)), s)
      | Some File \<Rightarrow> (Inl (OSError NotADirectoryError (ab, c # par)), s)
      | Some Dir \<Rightarrow>
          if entries s (ab, c # par) \<noteq> None
          then (Inl (OSError FileExistsError (ab, c # par)), s)
          else if deny E (ab, c # par)
          then (Inl (OSError PermissionError (ab, c # par)), s)
          else (Inr (), s\<lparr>entries := (entries s)((ab, c # par) \<mapsto> Dir)\<rparr>))"

text \<open>
  \<^verbatim>\<open>os.makedirs(name)\<close> with \<^verbatim>\<open>exist_ok=False\<close>: when the parent does not exist it is
  made first, a \<^verbatim>\<open>FileExistsError\<close> of that recursive call being ignored; then the
  leaf is made with \<^verbatim>\<open>mkdir\<close>, whose error propagates.
\<close>

fun os_makedirs_key :: "env \<Rightarrow> key \<Rightarrow> state \<Rightarrow> (exn + unit) \<times> state" where
  "os_makedirs_key E (ab, []) s = os_mkdir E (ab, []) s"
| "os_makedirs_key E (ab, c # par) s =
     (if lookup (entries s) (ab, par) = None
      then (case os_makedirs_key E (ab, par) s of
              (Inl (OSError FileExistsError k), s') \<Rightarrow> os_mkdir E (ab, c # par) s'
            | (Inl e, s') \<Rightarrow> (Inl e, s')
            | (Inr u, s') \<Rightarrow> os_mkdir E (ab, c # par) s')
      else os_mkdir E (ab, c # par) s)"

declare os_mkdir.simps [simp del] os_makedirs_key.simps [simp del]

definition os_makedirs :: "env \<Rightarrow> string \<Rightarrow> state \<Rightarrow> (exn + unit) \<times> state" where
  "os_makedirs E name s = os_makedirs_key E (resolve name) s"

section \<open>create\_backup\_directory\<close>

text \<open>
  The loop of lines 70--73 over \<^verbatim>\<open>[year_dir, month_dir, day_dir]\<close>: a path that
  exists, as a directory or not, is skipped.
\<close>

fun create_missing :: "env \<Rightarrow> string list \<Rightarrow> state \<Rightarrow> (exn + unit) \<times> state" where
  "create_missing E [] s = (Inr (), s)"
| "create_missing E (directory # rest) s =
     (if \<not> os_path_exists s directory
      then (case os_makedirs E directory s of
              (Inl e, s') \<Rightarrow> (Inl e, s')
            | (Inr u, s') \<Rightarrow>
                create_missing E rest (logging_info (''Created directory: '' @ directory) s'))
      else create_missing E rest s)"

declare create_missing.simps [simp del]

definition year_dir_of :: "string \<Rightarrow> date \<Rightarrow> string" where
  "year_dir_of base_dir today = os_path_join base_dir (str_nat (d_year today))"

definition month_dir_of :: "string \<Rightarrow> date \<Rightarrow> string" where
  "month_dir_of base_dir today =
     os_path_join (year_dir_of base_dir today) (zfill 2 (str_nat (d_month today)))"

definition day_dir_of :: "string \<Rightarrow> date \<Rightarrow> string" where
  "day_dir_of base_dir today =
     os_path_join (month_dir_of base_dir today) (zfill 2 (str_nat (d_day today)))"

definition create_backup_directory :: "env \<Rightarrow> string \<Rightarrow> state \<Rightarrow> (exn + string) \<times> state" where
  "create_backup_directory E base_dir s =
     (case read_clock E s of (now, s1) \<Rightarrow>
        let today = date_of now;
            year_dir = year_dir_of base_dir today;
            month_dir = month_dir_of base_dir today;
            day_dir = day_dir_of base_dir today
        in (case create_missing E [year_dir, month_dir, day_dir] s1 of
              (Inl e, s2) \<Rightarrow> (Inl e, s2)
            | (Inr u, s2) \<Rightarrow> (Inr day_dir, s2)))"

section \<open>The database driver\<close>

text \<open>
  \<^verbatim>\<open>pyodbc.connect\<close>: every call is recorded; a successful one opens a connection with
  a fresh handle.
\<close>

definition pyodbc_connect :: "env \<Rightarrow> string \<Rightarrow> state \<Rightarrow> (exn + nat) \<times> state" where
  "pyodbc_connect E connection_string s =
     (let s1 = s\<lparr>db_calls := db_calls s @ [Connect connection_string]\<rparr>
      in case db_connect E connection_string of
           Some e \<Rightarrow> (Inl e, s1)
         | None \<Rightarrow>
             (Inr (next_conn s1),
              s1\<lparr>open_conns := next_conn s1 # open_conns s1, next_conn := Suc (next_conn s1)\<rparr>))"

definition connection_cursor :: "env \<Rightarrow> nat \<Rightarrow> state \<Rightarrow> (exn + nat) \<times> state" where
  "connection_cursor E connection s =
     (let s1 = s\<lparr>db_calls := db_calls s @ [Cursor connection]\<rparr>
      in case db_cursor E connection of Some e \<Rightarrow> (Inl e, s1) | None \<Rightarrow> (Inr connection, s1))"

definition cursor_execute :: "env \<Rightarrow> nat \<Rightarrow> string \<Rightarrow> state \<Rightarrow> (exn + unit) \<times> state" where
  "cursor_execute E cursor sql s =
     (let s1 = s\<lparr>db_calls := db_calls s @ [Execute cursor sql]\<rparr>
      in case db_execute E sql of Some e \<Rightarrow> (Inl e, s1) | None \<Rightarrow> (Inr (), s1))"

definition cursor_commit :: "env \<Rightarrow> nat \<Rightarrow> state \<Rightarrow> (exn + unit) \<times> state" where
  "cursor_commit E cursor s =
     (let s1 = s\<lparr>db_calls := db_calls s @ [Commit cursor]\<rparr>
      in case db_commit E cursor of Some e \<Rightarrow> (Inl e, s1) | None \<Rightarrow> (Inr (), s1))"

text \<open>\<^verbatim>\<open>connection.close()\<close>: the handle leaves the open connections when the call succeeds.\<close>

definition connection_close :: "env \<Rightarrow> nat \<Rightarrow> state \<Rightarrow> (exn + unit) \<times> state" where
  "connection_close E connection s =
     (let s1 = s\<lparr>db_calls := db_calls s @ [Close connection]\<rparr>
      in case db_close E connection of
           Some e \<Rightarrow> (Inl e, s1)
         | None \<Rightarrow> (Inr (), s1\<lparr>open_conns := removeAll connection (open_conns s1)\<rparr>))"

section \<open>connect\_to\_sql\_server\<close>

definition connection_string_of :: "string \<Rightarrow> string \<Rightarrow> string \<Rightarrow> string \<Rightarrow> string" where
  "connection_string_of server database username password =
     ''DRIVER={ODBC Driver 18 for SQL Server};SERVER='' @ server @ '';DATABASE='' @ database
       @ '';UID='' @ username @ '';PWD='' @ password
       @ '';Encrypt=no;TrustServerCertificate=yes;''"

definition connect_to_sql_server ::
  "env \<Rightarrow> string \<Rightarrow> string \<Rightarrow> string \<Rightarrow> string \<Rightarrow> state \<Rightarrow> (exn + nat) \<times> state" where
  "connect_to_sql_server E server database username password s =
     (case pyodbc_connect E (connection_string_of server database username password) s of
        (Inr connection, s1) \<Rightarrow>
          (Inr connection, logging_info ''Connected to SQL Server successfully.'' s1)
      | (Inl e, s1) \<Rightarrow>
          (Inl e, logging_error (''Failed to connect to SQL Server: '' @ str_exn e) s1))"

section \<open>backup\_database\<close>

definition backup_filename_of :: "string \<Rightarrow> datetime \<Rightarrow> string" where
  "backup_filename_of database_name now =
     database_name @ ''_backup_'' @ strftime_Ymd_HMS now @ ''.bak''"

definition backup_sql_of :: "string \<Rightarrow> string \<Rightarrow> string" where
  "backup_sql_of database_name backup_path =
     ''BACKUP DATABASE ['' @ database_name @ ''] TO DISK = N'' @ [CHR 0x27] @ backup_path
       @ [CHR 0x27] @ '' WITH NOFORMAT, NOINIT, NAME = N'' @ [CHR 0x27] @ database_name
       @ ''-Full Database Backup'' @ [CHR 0x27] @ '', SKIP, NOREWIND, NOUNLOAD, STATS = 10''"

text \<open>Lines 80--96, the body of the \<^verbatim>\<open>try\<close>.\<close>

definition backup_database_try ::
  "env \<Rightarrow> nat \<Rightarrow> string \<Rightarrow> string \<Rightarrow> state \<Rightarrow> (exn + string) \<times> state" where
  "backup_database_try E connection database_name backup_dir s =
     (case connection_cursor E connection s of
        (Inl e, s1) \<Rightarrow> (Inl e, s1)
      | (Inr cursor, s1) \<Rightarrow>
          (case read_clock E s1 of (now, s2) \<Rightarrow>
             let backup_filename = backup_filename_of database_name now;
                 backup_path = os_path_join backup_dir backup_filename;
                 backup_sql = backup_sql_of database_name backup_path
             in (case cursor_execute E cursor backup_sql s2 of
                   (Inl e, s3) \<Rightarrow> (Inl e, s3)
                 | (Inr u, s3) \<Rightarrow>
                     (case cursor_commit E cursor s3 of
                        (Inl e, s4) \<Rightarrow> (Inl e, s4)
                      | (Inr u, s4) \<Rightarrow>
                          (Inr backup_path,
                           logging_info (''Backup of database '' @ database_name
                             @ '' completed successfully. Saved to '' @ backup_path) s4)))))"

text \<open>Lines 97--99: the error is logged and raised again.\<close>

definition backup_database ::
  "env \<Rightarrow> nat \<Rightarrow> string \<Rightarrow> string \<Rightarrow> state \<Rightarrow> (exn + string) \<times> state" where
  "backup_database E connection database_name backup_dir s =
     (case backup_database_try E connection database_name backup_dir s of
        (Inl e, s1) \<Rightarrow>
          (Inl e, logging_error (''Failed to back up the database: '' @ str_exn e) s1)
      | (Inr backup_path, s1) \<Rightarrow> (Inr backup_path, s1))"

section \<open>send\_email\_notification\<close>

text \<open>Lines 111--114, the body of the \<^verbatim>\<open>with\<close> statement.\<close>

definition smtp_body :: "env \<Rightarrow> email \<Rightarrow> state \<Rightarrow> (exn + unit) \<times> state" where
  "smtp_body E m s =
     (case smtp_starttls E of
        Some e \<Rightarrow> (Inl e, s)
      | None \<Rightarrow>
          (case smtp_login E (em_user m) (em_password m) of
             Some e \<Rightarrow> (Inl e, s)
           | None \<Rightarrow>
               (case smtp_sendmail E m of
                  Some e \<Rightarrow> (Inl e, s)
                | None \<Rightarrow>
                    (Inr (),
                     logging_info ''Email notification sent successfully.''
                       (s\<lparr>delivered := delivered s @ [m]\<rparr>)))))"

text \<open>
  Line 110: \<^verbatim>\<open>with smtplib.SMTP(smtp_server, smtp_port) as server\<close>. When the session
  opens, its exit (the QUIT command) runs whether the body raised or not, and an
  exception of the exit replaces that of the body.
\<close>

definition smtp_session :: "env \<Rightarrow> email \<Rightarrow> state \<Rightarrow> (exn + unit) \<times> state" where
  "smtp_session E m s =
     (case smtp_connect E (em_server m) (em_port m) of
        Some e \<Rightarrow> (Inl e, s)
      | None \<Rightarrow>
          (case smtp_body E m s of (r, s1) \<Rightarrow>
             (case smtp_quit E of Some e \<Rightarrow> (Inl e, s1) | None \<Rightarrow> (r, s1))))"

text \<open>
  Lines 103--116. The call itself is the notification attempt; whatever the session
  raises is caught, logged and dropped.
\<close>

definition send_email_notification ::
  "env \<Rightarrow> string \<Rightarrow> string \<Rightarrow> string \<Rightarrow> string \<Rightarrow> string \<Rightarrow> nat \<Rightarrow> string \<Rightarrow> string
     \<Rightarrow> state \<Rightarrow> (exn + unit) \<times> state" where
  "send_email_notification E subject body from_email to_email smtp_server_name smtp_port_no
       smtp_user_name smtp_pass s =
     (let msg = \<lparr>em_subject = subject, em_body = body, em_from = from_email, em_to = to_email,
                 em_server = smtp_server_name, em_port = smtp_port_no, em_user = smtp_user_name,
                 em_password = smtp_pass\<rparr>
      in case smtp_session E msg (s\<lparr>attempts := attempts s @ [msg]\<rparr>) of
           (Inl e, s1) \<Rightarrow>
             (Inr (), logging_error (''Failed to send email notification: '' @ str_exn e) s1)
         | (Inr u, s1) \<Rightarrow> (Inr (), s1))"

section \<open>perform\_backup\<close>

text \<open>
  The \<^verbatim>\<open>except\<close> clause of \<^verbatim>\<open>perform_backup\<close> reads variables that the \<^verbatim>\<open>try\<close>
  block assigns, so the local variables of this function are modelled as they are in
  Python: a frame in which every name is unbound until it is assigned, and reading an
  unbound name raises.
\<close>

record frame =
  v_server :: "string option"
  v_database :: "string option"
  v_username :: "string option"
  v_password :: "string option"
  v_backup_dir :: "string option"
  v_notify_email :: "string option"
  v_smtp_server :: "string option"
  v_smtp_port :: "nat option"
  v_smtp_user :: "string option"
  v_smtp_password :: "string option"
  v_connection :: "nat option"
  v_backup_path :: "string option"
  v_subject :: "string option"
  v_body :: "string option"

definition new_frame :: frame where
  "new_frame =
     \<lparr>v_server = None, v_database = None, v_username = None, v_password = None,
      v_backup_dir = None, v_notify_email = None, v_smtp_server = None, v_smtp_port = None,
      v_smtp_user = None, v_smtp_password = None, v_connection = None, v_backup_path = None,
      v_subject = None, v_body = None\<rparr>"

type_synonym 'a prog = "frame \<times> state \<Rightarrow> (exn + 'a) \<times> frame \<times> state"

definition retP :: "'a \<Rightarrow> 'a prog" where
  "retP x = (\<lambda>st. (Inr x, st))"

definition bindP :: "'a prog \<Rightarrow> ('a \<Rightarrow> 'b prog) \<Rightarrow> 'b prog" where
  "bindP m f = (\<lambda>st. case m st of (Inl e, st') \<Rightarrow> (Inl e, st') | (Inr x, st') \<Rightarrow> f x st')"

definition load :: "string \<Rightarrow> (frame \<Rightarrow> 'a option) \<Rightarrow> 'a prog" where
  "load name var =
     (\<lambda>st. case var (fst st) of None \<Rightarrow> (Inl (UnboundLocalError name), st) | Some x \<Rightarrow> (Inr x, st))"

definition store :: "(frame \<Rightarrow> frame) \<Rightarrow> unit prog" where
  "store upd = (\<lambda>st. (Inr (), upd (fst st), snd st))"

definition call :: "(state \<Rightarrow> (exn + 'a) \<times> state) \<Rightarrow> 'a prog" where
  "call f = (\<lambda>st. case f (snd st) of (r, s') \<Rightarrow> (r, fst st, s'))"

definition effect :: "(state \<Rightarrow> state) \<Rightarrow> unit prog" where
  "effect f = (\<lambda>st. (Inr (), fst st, f (snd st)))"

fun block :: "unit prog list \<Rightarrow> unit prog" where
  "block [] = retP ()"
| "block (stmt # stmts) = bindP stmt (\<lambda>u. block stmts)"

definition try_except :: "unit prog \<Rightarrow> (exn \<Rightarrow> unit prog) \<Rightarrow> unit prog" where
  "try_except body handler =
     (\<lambda>st. case body st of (Inl e, st') \<Rightarrow> handler e st' | (Inr u, st') \<Rightarrow> (Inr u, st'))"

text \<open>Lines 122--131: the configuration, ten assignments of literals.\<close>

definition assign_configuration :: "unit prog" where
  "assign_configuration = block
     [store (\<lambda>fr. fr\<lparr>v_server := Some ''YOUR_SERVER''\<rparr>),
      store (\<lambda>fr. fr\<lparr>v_database := Some ''YOUR_DATABASE''\<rparr>),
      store (\<lambda>fr. fr\<lparr>v_username := Some ''YOUR_USERNAME''\<rparr>),
      store (\<lambda>fr. fr\<lparr>v_password := Some ''YOUR_PASSWORD''\<rparr>),
      store (\<lambda>fr. fr\<lparr>v_backup_dir := Some ''/path/to/backup''\<rparr>),
      store (\<lambda>fr. fr\<lparr>v_notify_email := Some ''recipient@example.com''\<rparr>),
      store (\<lambda>fr. fr\<lparr>v_smtp_server := Some ''smtp.example.com''\<rparr>),
      store (\<lambda>fr. fr\<lparr>v_smtp_port := Some 587\<rparr>),
      store (\<lambda>fr. fr\<lparr>v_smtp_user := Some ''smtp_user''\<rparr>),
      store (\<lambda>fr. fr\<lparr>v_smtp_password := Some ''smtp_password''\<rparr>)]"

text \<open>Lines 122--144: configuration, directory, connection, backup, close.\<close>

definition backup_steps :: "env \<Rightarrow> unit prog" where
  "backup_steps E = block
     [assign_configuration,
      bindP (load ''backup_dir'' v_backup_dir) (\<lambda>backup_dir.
        bindP (call (create_backup_directory E backup_dir)) (\<lambda>day_dir.
          store (\<lambda>fr. fr\<lparr>v_backup_dir := Some day_dir\<rparr>))),
      bindP (load ''server'' v_server) (\<lambda>server.
        bindP (load ''database'' v_database) (\<lambda>database.
          bindP (load ''username'' v_username) (\<lambda>username.
            bindP (load ''password'' v_password) (\<lambda>password.
              bindP (call (connect_to_sql_server E server database username password))
                (\<lambda>connection. store (\<lambda>fr. fr\<lparr>v_connection := Some connection\<rparr>)))))),
      bindP (load ''connection'' v_connection) (\<lambda>connection.
        bindP (load ''database'' v_database) (\<lambda>database.
          bindP (load ''backup_dir'' v_backup_dir) (\<lambda>backup_dir.
            bindP (call (backup_database E connection database backup_dir))
              (\<lambda>backup_path. store (\<lambda>fr. fr\<lparr>v_backup_path := Some backup_path\<rparr>))))),
      bindP (load ''connection'' v_connection) (\<lambda>connection.
        call (connection_close E connection)),
      effect (logging_info ''Database connection closed.'')]"

text \<open>The call of \<^verbatim>\<open>send_email_notification\<close> of lines 150 and 157, arguments read in order.\<close>

definition send_from_frame :: "env \<Rightarrow> unit prog" where
  "send_from_frame E =
     bindP (load ''subject'' v_subject) (\<lambda>subject.
       bindP (load ''body'' v_body) (\<lambda>body.
         bindP (load ''smtp_user'' v_smtp_user) (\<lambda>from_email.
           bindP (load ''notify_email'' v_notify_email) (\<lambda>notify_email.
             bindP (load ''smtp_server'' v_smtp_server) (\<lambda>smtp_server_name.
               bindP (load ''smtp_port'' v_smtp_port) (\<lambda>smtp_port_no.
                 bindP (load ''smtp_user'' v_smtp_user) (\<lambda>smtp_user_name.
                   bindP (load ''smtp_password'' v_smtp_password) (\<lambda>smtp_pass.
                     call (send_email_notification E subject body from_email notify_email
                             smtp_server_name smtp_port_no smtp_user_name smtp_pass)))))))))"

text \<open>Lines 147--150: the success notification, sent when the recipient is not empty.\<close>

definition notify_success :: "env \<Rightarrow> unit prog" where
  "notify_success E =
     bindP (load ''notify_email'' v_notify_email) (\<lambda>notify_email.
       if notify_email \<noteq> [] then block
         [bindP (load ''database'' v_database) (\<lambda>database.
            store (\<lambda>fr. fr\<lparr>v_subject := Some (''Backup Success: '' @ database)\<rparr>)),
          bindP (load ''database'' v_database) (\<lambda>database.
            bindP (load ''backup_path'' v_backup_path) (\<lambda>backup_path.
              store (\<lambda>fr. fr\<lparr>v_body := Some (''Backup of database '' @ database
                @ '' completed successfully. Backup file: '' @ backup_path)\<rparr>))),
          send_from_frame E]
       else retP ())"

text \<open>Lines 153--157: the handler of \<^verbatim>\<open>except Exception as e\<close>.\<close>

definition notify_failure :: "env \<Rightarrow> exn \<Rightarrow> unit prog" where
  "notify_failure E e = block
     [effect (logging_error (''An error occurred: '' @ str_exn e)),
      bindP (load ''notify_email'' v_notify_email) (\<lambda>notify_email.
        if notify_email \<noteq> [] then block
          [bindP (load ''database'' v_database) (\<lambda>database.
             store (\<lambda>fr. fr\<lparr>v_subject := Some (''Backup Failed: '' @ database)\<rparr>)),
           bindP (load ''database'' v_database) (\<lambda>database.
             store (\<lambda>fr. fr\<lparr>v_body := Some (''An error occurred during the backup of database ''
               @ database @ ''. Error: '' @ str_exn e)\<rparr>)),
           send_from_frame E]
        else retP ())]"

definition perform_backup_try :: "env \<Rightarrow> unit prog" where
  "perform_backup_try E = block [backup_steps E, notify_success E]"

text \<open>
  A call of \<^verbatim>\<open>perform_backup\<close> starts with a fresh frame and drops it when it returns;
  \<open>Inl e\<close> is an exception that leaves the function.
\<close>

definition perform_backup :: "env \<Rightarrow> state \<Rightarrow> (exn + unit) \<times> state" where
  "perform_backup E s =
     (case try_except (perform_backup_try E) (notify_failure E) (new_frame, s) of
        (r, fr, s') \<Rightarrow> (r, s'))"

section \<open>Example worlds\<close>

text \<open>
  A Friday morning on which every collaborator answers; the base directory of the
  script exists and is empty.
\<close>

definition example_time :: datetime where
  "example_time =
     \<lparr>dt_year = 2024, dt_month = 3, dt_day = 8, dt_hour = 8, dt_minute = 0, dt_second = 0,
      dt_microsecond = 125\<rparr>"

definition example_env :: env where
  "example_env =
     \<lparr>clock = (\<lambda>n. example_time), deny = (\<lambda>k. False), db_connect = (\<lambda>c. None),
      db_cursor = (\<lambda>c. None), db_execute = (\<lambda>q. None), db_commit = (\<lambda>c. None),
      db_close = (\<lambda>c. None), smtp_connect = (\<lambda>h p. None), smtp_starttls = None,
      smtp_login = (\<lambda>u p. None), smtp_sendmail = (\<lambda>m. None), smtp_quit = None\<rparr>"

definition example_fs :: "key \<Rightarrow> node option" where
  "example_fs =
     [(True, [''path'']) \<mapsto> Dir, (True, [''to'', ''path'']) \<mapsto> Dir,
      (True, [''backup'', ''to'', ''path'']) \<mapsto> Dir]"

definition example_state :: state where
  "example_state =
     \<lparr>ticks = 0, entries = example_fs, next_conn = 0, open_conns = [], db_calls = [],
      attempts = [], delivered = [], logfile = []\<rparr>"

text \<open>The frame after the ten assignments of lines 122--131.\<close>

definition config_frame :: frame where
  "config_frame =
     \<lparr>v_server = Some ''YOUR_SERVER'', v_database = Some ''YOUR_DATABASE'',
      v_username = Some ''YOUR_USERNAME'', v_password = Some ''YOUR_PASSWORD'',
      v_backup_dir = Some ''/path/to/backup'', v_notify_email = Some ''recipient@example.com'',
      v_smtp_server = Some ''smtp.example.com'', v_smtp_port = Some 587,
      v_smtp_user = Some ''smtp_user'', v_smtp_password = Some ''smtp_password'',
      v_connection = None, v_backup_path = None, v_subject = None, v_body = None\<rparr>"

text \<open>The two messages \<open>perform_backup\<close> can send.\<close>

definition success_email :: "string \<Rightarrow> email" where
  "success_email backup_path =
     \<lparr>em_subject = ''Backup Success: YOUR_DATABASE'',
      em_body = ''Backup of database YOUR_DATABASE completed successfully. Backup file: ''
        @ backup_path,
      em_from = ''smtp_user'', em_to = ''recipient@example.com'',
      em_server = ''smtp.example.com'', em_port = 587, em_user = ''smtp_user'',
      em_password = ''smtp_password''\<rparr>"

definition failure_email :: "exn \<Rightarrow> email" where
  "failure_email e =
     \<lparr>em_subject = ''Backup Failed: YOUR_DATABASE'',
      em_body = ''An error occurred during the backup of database YOUR_DATABASE. Error: ''
        @ str_exn e,
      em_from = ''smtp_user'', em_to = ''recipient@example.com'',
      em_server = ''smtp.example.com'', em_port = 587, em_user = ''smtp_user'',
      em_password = ''smtp_password''\<rparr>"

text \<open>A notification attempt: the call of \<open>send_email_notification\<close> with a message.\<close>

definition notify :: "env \<Rightarrow> email \<Rightarrow> state \<Rightarrow> (exn + unit) \<times> state" where
  "notify E m s =
     send_email_notification E (em_subject m) (em_body m) (em_from m) (em_to m) (em_server m)
       (em_port m) (em_user m) (em_password m) s"

text \<open>
  The names the \<^verbatim>\<open>except\<close> clause of \<open>perform_backup\<close> reads are bound in a frame, to
  the values of the configuration.
\<close>

definition handler_names_bound :: "frame \<Rightarrow> bool" where
  "handler_names_bound fr =
     (v_notify_email fr = Some ''recipient@example.com''
      \<and> v_database fr = Some ''YOUR_DATABASE''
      \<and> v_smtp_user fr = Some ''smtp_user''
      \<and> v_smtp_server fr = Some ''smtp.example.com''
      \<and> v_smtp_port fr = Some 587
      \<and> v_smtp_password fr = Some ''smtp_password'')"

text \<open>The same morning with the database server unreachable.\<close>

definition db_down_env :: env where
  "db_down_env = example_env\<lparr>db_connect := (\<lambda>c. Some (LibraryError ''Login timeout expired''))\<rparr>"

text \<open>The same morning with the mail relay unreachable.\<close>

definition relay_down_env :: env where
  "relay_down_env =
     example_env\<lparr>smtp_connect := (\<lambda>h p. Some (LibraryError ''Connection refused''))\<rparr>"

text \<open>The same morning on a filesystem that refuses every creation.\<close>

definition readonly_env :: env where
  "readonly_env = example_env\<lparr>deny := (\<lambda>k. True)\<rparr>"

text \<open>The same morning with a backup statement that the server rejects.\<close>

definition backup_fails_env :: env where
  "backup_fails_env =
     example_env\<lparr>db_execute := (\<lambda>q. Some (LibraryError ''There is not enough space on the disk''))\<rparr>"

text \<open>The year directory of that day is a regular file.\<close>

definition year_is_file_state :: state where
  "year_is_file_state =
     example_state\<lparr>entries := example_fs((True, [''2024'', ''backup'', ''to'', ''path'']) \<mapsto> File)\<rparr>"

text \<open>The year and month directories of that day exist, and the day is a regular file.\<close>

definition day_is_file_state :: state where
  "day_is_file_state =
     example_state\<lparr>entries := example_fs
       ((True, [''2024'', ''backup'', ''to'', ''path'']) \<mapsto> Dir,
        (True, [''03'', ''2024'', ''backup'', ''to'', ''path'']) \<mapsto> Dir,
        (True, [''08'', ''03'', ''2024'', ''backup'', ''to'', ''path'']) \<mapsto> File)\<rparr>"

text \<open>Two clock readings print the same timestamp: same day, hour, minute and second.\<close>

definition same_second :: "datetime \<Rightarrow> datetime \<Rightarrow> bool" where
  "same_second t1 t2 =
     (date_of t1 = date_of t2 \<and> dt_hour t1 = dt_hour t2 \<and> dt_minute t1 = dt_minute t2
      \<and> dt_second t1 = dt_second t2)"

text \<open>A clock that stays within one second while its microseconds advance.\<close>

definition same_second_env :: env where
  "same_second_env = example_env\<lparr>clock := (\<lambda>n. example_time\<lparr>dt_microsecond := 1000 * n\<rparr>)\<rparr>"

text \<open>
  A clock whose first reading is 2024-03-08 23:59:59 and whose second reading is
  2024-03-09 00:00:00.
\<close>

definition midnight_env :: env where
  "midnight_env =
     example_env\<lparr>clock := (\<lambda>n.
        \<lparr>dt_year = 2024, dt_month = 3, dt_day = 8 + n, dt_hour = 23 - 23 * n,
         dt_minute = 59 - 59 * n, dt_second = 59 - 59 * n, dt_microsecond = 0\<rparr>)\<rparr>"

section \<open>Facts about the formatting functions\<close>

lemma digit_char_neq_slash: "digit_char n \<noteq> CHR ''/''"
proof
  assume "digit_char n = CHR ''/''"
  then have "(of_char (digit_char n) :: nat) = of_char (CHR ''/'')" by simp
  then show False by (simp add: digit_char_def)
qed

lemma digit_val: "(of_char (digit_char n) :: nat) - 48 = n mod 10"
  by (simp add: digit_char_def)

lemma str_nat_no_slash: "CHR ''/'' \<notin> set (str_nat n)"
proof (induction n rule: str_nat.induct)
  case (1 n)
  have "CHR ''/'' \<noteq> digit_char n" by (rule not_sym) (rule digit_char_neq_slash)
  with 1 show ?case by (subst str_nat.simps) auto
qed

lemma str_nat_nonempty: "str_nat n \<noteq> []"
  by (subst str_nat.simps) simp

lemma nat_of_digits_snoc: "nat_of_digits (s @ [c]) = 10 * nat_of_digits s + (of_char c - 48)"
  by (simp add: nat_of_digits_def)

lemma nat_of_digits_str_nat: "nat_of_digits (str_nat n) = n"
proof (induction n rule: str_nat.induct)
  case (1 n)
  show ?case
  proof (cases "n < 10")
    case True
    then show ?thesis
      by (subst str_nat.simps) (simp add: nat_of_digits_def digit_val)
  next
    case False
    with 1 have "nat_of_digits (str_nat (n div 10)) = n div 10" by simp
    with False show ?thesis
      by (subst str_nat.simps) (simp add: nat_of_digits_snoc digit_val)
  qed
qed

lemma nat_of_digits_zeros: "foldl (\<lambda>a c. 10 * a + (of_char c - 48)) (0::nat) (replicate k (CHR ''0'')) = 0"
  by (induction k) simp_all

lemma nat_of_digits_zfill: "nat_of_digits (zfill w s) = nat_of_digits s"
  by (simp add: nat_of_digits_def zfill_def nat_of_digits_zeros)

lemma length_str_nat: "0 < k \<Longrightarrow> n < 10 ^ k \<Longrightarrow> length (str_nat n) \<le> k"
proof (induction n arbitrary: k rule: str_nat.induct)
  case (1 n)
  show ?case
  proof (cases "n < 10")
    case True
    with 1(2) show ?thesis by (subst str_nat.simps) simp
  next
    case False
    obtain j where k: "k = Suc j" using 1(2) by (cases k) auto
    have j: "0 < j" using False 1(3) k by (cases j) auto
    have "n div 10 < 10 ^ j" using 1(3) k by (simp add: less_mult_imp_div_less mult.commute)
    with 1(1)[OF False j] have "length (str_nat (n div 10)) \<le> j" by simp
    with False k show ?thesis by (subst str_nat.simps) simp
  qed
qed

lemma length_zfill: "0 < w \<Longrightarrow> n < 10 ^ w \<Longrightarrow> length (zfill w (str_nat n)) = w"
  using length_str_nat[of w n] by (simp add: zfill_def)

lemma zfill_inj: "zfill w (str_nat a) = zfill v (str_nat b) \<Longrightarrow> a = b"
  using nat_of_digits_zfill nat_of_digits_str_nat by metis

lemma zfill_no_slash: "CHR ''/'' \<notin> set (zfill w (str_nat n))"
  by (auto simp: zfill_def str_nat_no_slash)

lemma zfill_nonempty: "zfill w (str_nat n) \<noteq> []"
  by (simp add: zfill_def str_nat_nonempty)

section \<open>Facts about paths\<close>

lemma scan_plain: "CHR ''/'' \<notin> set b \<Longrightarrow> foldl scan_step (cur, dn) b = (cur @ b, dn)"
  by (induction b arbitrary: cur) (auto simp: scan_step_def)

lemma components_plain: "b \<noteq> [] \<Longrightarrow> CHR ''/'' \<notin> set b \<Longrightarrow> components b = [b]"
  by (simp add: components_def scan_plain push_def)

lemma components_after_slash:
  assumes "b \<noteq> []" and "CHR ''/'' \<notin> set b"
  shows "components (a @ ''/'' @ b) = b # components a"
proof -
  obtain cur dn where st: "foldl scan_step ([], []) a = (cur, dn)"
    by (cases "foldl scan_step ([], []) a") auto
  have "foldl scan_step ([], []) (a @ ''/'' @ b) = (b, push cur dn)"
    using assms(2) by (simp add: st scan_step_def scan_plain)
  with assms(1) st show ?thesis by (simp add: components_def push_def)
qed

lemma components_trailing_slash:
  assumes "a \<noteq> []" and "last a = CHR ''/''" and "b \<noteq> []" and "CHR ''/'' \<notin> set b"
  shows "components (a @ b) = b # components a"
proof -
  obtain a' where a: "a = a' @ ''/''"
    using assms(1,2) by (metis append_butlast_last_id)
  obtain cur dn where st: "foldl scan_step ([], []) a' = (cur, dn)"
    by (cases "foldl scan_step ([], []) a'") auto
  have 1: "foldl scan_step ([], []) a = ([], push cur dn)"
    by (simp add: a st scan_step_def)
  have 2: "foldl scan_step ([], []) (a @ b) = (b, push cur dn)"
    using assms(4) by (simp add: 1 scan_plain)
  from 1 2 assms(3) show ?thesis by (simp add: components_def push_def)
qed

lemma resolve_join:
  assumes "b \<noteq> []" and "CHR ''/'' \<notin> set b"
  shows "resolve (os_path_join a b) = (isabs a, b # components a)"
proof -
  have hd: "hd b \<noteq> CHR ''/''" using assms by (cases b) auto
  show ?thesis
  proof (cases "a = []")
    case True
    have "components [] = []" by (simp add: components_def push_def)
    with True assms hd show ?thesis
      by (simp add: resolve_def os_path_join_def isabs_def components_plain)
  next
    case False
    show ?thesis
    proof (cases "last a = CHR ''/''")
      case True
      with False assms hd show ?thesis
        by (simp add: resolve_def os_path_join_def isabs_def components_trailing_slash)
    next
      case no_slash: False
      have "components (a @ CHR ''/'' # b) = b # components a"
        using components_after_slash[OF assms, of a] by simp
      with False no_slash hd show ?thesis
        by (simp add: resolve_def os_path_join_def isabs_def)
    qed
  qed
qed

section \<open>Facts about the filesystem\<close>

lemma lookup_mkdir_other:
  "fs k = None \<Longrightarrow> lookup fs q = Some n \<Longrightarrow> lookup (fs(k \<mapsto> Dir)) q = Some n"
proof (induction fs q arbitrary: n rule: lookup.induct)
  case (1 fs ab)
  then show ?case by simp
next
  case (2 fs ab c par)
  from 2(3) have par: "lookup fs (ab, par) = Some Dir" and here: "fs (ab, c # par) = Some n"
    by (auto split: option.splits node.splits)
  from 2(1)[OF 2(2) par] have up: "lookup (fs(k \<mapsto> Dir)) (ab, par) = Some Dir" .
  from here 2(2) have "k \<noteq> (ab, c # par)" by auto
  with here have "(fs(k \<mapsto> Dir)) (ab, c # par) = Some n" by simp
  with up show ?case by (simp only: lookup.simps option.case node.case)
qed

lemma os_mkdir_Inr:
  assumes "os_mkdir E (ab, c # par) s = (Inr u, s')"
  shows "lookup (entries s) (ab, par) = Some Dir \<and> entries s (ab, c # par) = None
         \<and> \<not> deny E (ab, c # par) \<and> s' = s\<lparr>entries := (entries s)((ab, c # par) \<mapsto> Dir)\<rparr>"
  using assms by (auto simp: os_mkdir.simps split: option.splits node.splits if_splits)

lemma os_mkdir_root: "os_mkdir E (ab, []) s \<noteq> (Inr u, s')"
  by (simp add: os_mkdir.simps)

lemma os_mkdir_Inl: "os_mkdir E k s = (Inl e, s') \<Longrightarrow> s' = s \<and> is_OSError e"
  by (cases k; cases "snd k")
     (auto simp: os_mkdir.simps split: option.splits node.splits if_splits)

lemma os_mkdir_denied: "deny E k \<Longrightarrow> \<exists>e. os_mkdir E k s = (Inl e, s) \<and> is_OSError e"
  by (cases k; cases "snd k") (auto simp: os_mkdir.simps split: option.splits node.splits)

lemma os_mkdir_footprint: "os_mkdir E k s = (r, s') \<Longrightarrow> \<exists>fs. s' = s\<lparr>entries := fs\<rparr>"
proof (cases r)
  case (Inl e)
  assume "os_mkdir E k s = (r, s')"
  with Inl have "s' = s" by (auto dest: os_mkdir_Inl)
  then show ?thesis by (intro exI[of _ "entries s"]) simp
next
  case (Inr u)
  assume run: "os_mkdir E k s = (r, s')"
  obtain ab cs where k: "k = (ab, cs)" by (cases k) auto
  show ?thesis
  proof (cases cs)
    case Nil
    with run k Inr show ?thesis by (simp add: os_mkdir_root)
  next
    case (Cons c par)
    with run k Inr have "os_mkdir E (ab, c # par) s = (Inr u, s')" by simp
    from os_mkdir_Inr[OF this] show ?thesis by blast
  qed
qed

lemma os_mkdir_mono:
  "os_mkdir E k s = (r, s') \<Longrightarrow> lookup (entries s) q = Some n \<Longrightarrow> lookup (entries s') q = Some n"
  by (cases k; cases "snd k")
     (auto simp: os_mkdir.simps lookup_mkdir_other split: option.splits node.splits if_splits)

lemma os_mkdir_exists:
  "os_mkdir E k s = (Inr u, s') \<Longrightarrow> lookup (entries s') k = Some Dir"
  by (cases k; cases "snd k")
     (auto simp: os_mkdir.simps lookup_mkdir_other split: option.splits node.splits if_splits)

text \<open>The three ways a call of \<open>os_makedirs_key\<close> on a path with a parent can end.\<close>

lemma os_makedirs_key_cases:
  assumes "os_makedirs_key E (ab, c # par) s = (r, s')"
  obtains (direct) "lookup (entries s) (ab, par) \<noteq> None" "os_mkdir E (ab, c # par) s = (r, s')"
  | (stop) e where "lookup (entries s) (ab, par) = None"
      "os_makedirs_key E (ab, par) s = (Inl e, s')" "r = Inl e"
  | (go) r1 s1 where "lookup (entries s) (ab, par) = None"
      "os_makedirs_key E (ab, par) s = (r1, s1)" "os_mkdir E (ab, c # par) s1 = (r, s')"
proof (cases "lookup (entries s) (ab, par) = None")
  case False
  with assms have "os_mkdir E (ab, c # par) s = (r, s')"
    by (simp add: os_makedirs_key.simps)
  with False show ?thesis by (rule direct)
next
  case True
  obtain r1 s1 where rec: "os_makedirs_key E (ab, par) s = (r1, s1)"
    by (cases "os_makedirs_key E (ab, par) s") auto
  from assms True rec
  have "(r = r1 \<and> s' = s1 \<and> (\<exists>e. r1 = Inl e)) \<or> os_mkdir E (ab, c # par) s1 = (r, s')"
    by (auto simp: os_makedirs_key.simps split: sum.splits exn.splits os_errno.splits)
  then show ?thesis
  proof
    assume "r = r1 \<and> s' = s1 \<and> (\<exists>e. r1 = Inl e)"
    with True rec show ?thesis by (auto intro: stop)
  next
    assume "os_mkdir E (ab, c # par) s1 = (r, s')"
    with True rec show ?thesis by (rule go)
  qed
qed

lemma os_makedirs_key_footprint:
  "os_makedirs_key E k s = (r, s') \<Longrightarrow> \<exists>fs. s' = s\<lparr>entries := fs\<rparr>"
proof (induction E k s arbitrary: r s' rule: os_makedirs_key.induct)
  case (1 E ab s)
  then show ?case by (auto simp: os_makedirs_key.simps dest: os_mkdir_footprint)
next
  case (2 E ab c par s)
  from 2(2) show ?case
  proof (cases rule: os_makedirs_key_cases)
    case direct
    then show ?thesis by (auto dest: os_mkdir_footprint)
  next
    case (stop e)
    from 2(1)[OF stop(1,2)] show ?thesis .
  next
    case (go r1 s1)
    from 2(1)[OF go(1,2)] obtain fs1 where s1: "s1 = s\<lparr>entries := fs1\<rparr>" by auto
    from os_mkdir_footprint[OF go(3)] obtain fs2 where "s' = s1\<lparr>entries := fs2\<rparr>" by auto
    with s1 have "s' = s\<lparr>entries := fs2\<rparr>" by simp
    then show ?thesis by blast
  qed
qed

lemma os_makedirs_key_mono:
  "os_makedirs_key E k s = (r, s') \<Longrightarrow> lookup (entries s) q = Some n
     \<Longrightarrow> lookup (entries s') q = Some n"
proof (induction E k s arbitrary: r s' rule: os_makedirs_key.induct)
  case (1 E ab s)
  then show ?case by (auto simp: os_makedirs_key.simps dest: os_mkdir_mono)
next
  case (2 E ab c par s)
  from 2(2) show ?case
  proof (cases rule: os_makedirs_key_cases)
    case direct
    from os_mkdir_mono[OF direct(2) 2(3)] show ?thesis .
  next
    case (stop e)
    from 2(1)[OF stop(1,2) 2(3)] show ?thesis .
  next
    case (go r1 s1)
    from 2(1)[OF go(1,2) 2(3)] have "lookup (entries s1) q = Some n" .
    from os_mkdir_mono[OF go(3) this] show ?thesis .
  qed
qed

lemma os_makedirs_key_exists:
  assumes "os_makedirs_key E k s = (Inr u, s')"
  shows "lookup (entries s') k = Some Dir"
proof -
  obtain ab cs where k: "k = (ab, cs)" by (cases k) auto
  show ?thesis
  proof (cases cs)
    case Nil
    with assms k show ?thesis by (simp add: os_makedirs_key.simps os_mkdir_root)
  next
    case (Cons c par)
    with assms k have "os_makedirs_key E (ab, c # par) s = (Inr u, s')" by simp
    then have "\<exists>s1. os_mkdir E (ab, c # par) s1 = (Inr u, s')"
      by (cases rule: os_makedirs_key_cases) auto
    with k Cons show ?thesis by (auto dest: os_mkdir_exists)
  qed
qed

lemma os_makedirs_key_Inl:
  "os_makedirs_key E k s = (Inl e, s') \<Longrightarrow> is_OSError e"
proof (induction E k s arbitrary: e s' rule: os_makedirs_key.induct)
  case (1 E ab s)
  then show ?case by (auto simp: os_makedirs_key.simps dest: os_mkdir_Inl)
next
  case (2 E ab c par s)
  from 2(2) show ?case
  proof (cases rule: os_makedirs_key_cases)
    case direct
    then show ?thesis by (auto dest: os_mkdir_Inl)
  next
    case (stop e0)
    with 2(1)[OF stop(1), of e s'] show ?thesis by simp
  next
    case (go r1 s1)
    then show ?thesis by (auto dest: os_mkdir_Inl)
  qed
qed

text \<open>When the parent exists, \<open>os_makedirs_key\<close> is a single \<open>os_mkdir\<close>.\<close>

lemma os_makedirs_key_parent:
  "lookup (entries s) (ab, par) \<noteq> None
     \<Longrightarrow> os_makedirs_key E (ab, c # par) s = os_mkdir E (ab, c # par) s"
  by (auto simp: os_makedirs_key.simps)

text \<open>A refused creation of the leaf makes the whole call fail, whatever happens above it.\<close>

lemma os_makedirs_key_denied:
  assumes "deny E (ab, c # par)"
  shows "\<exists>e s'. os_makedirs_key E (ab, c # par) s = (Inl e, s') \<and> is_OSError e"
proof -
  obtain r s' where run: "os_makedirs_key E (ab, c # par) s = (r, s')"
    by (cases "os_makedirs_key E (ab, c # par) s") auto
  have "\<exists>e. r = Inl e"
    using run
  proof (cases rule: os_makedirs_key_cases)
    case direct
    with os_mkdir_denied[OF assms, of s] show ?thesis by auto
  next
    case (stop e)
    then show ?thesis by simp
  next
    case (go r1 s1)
    with os_mkdir_denied[OF assms, of s1] show ?thesis by auto
  qed
  then obtain e where "r = Inl e" ..
  with run os_makedirs_key_Inl[of E "(ab, c # par)" s e s'] show ?thesis by auto
qed

section \<open>Facts about create\_backup\_directory\<close>

lemma os_path_exists_fs: "entries s' = entries s \<Longrightarrow> os_path_exists s' p = os_path_exists s p"
  by (simp add: os_path_exists_def)

lemma os_makedirs_exists: "os_makedirs E p s = (Inr u, s') \<Longrightarrow> os_path_exists s' p"
  by (auto simp: os_makedirs_def os_path_exists_def dest: os_makedirs_key_exists)

lemma os_makedirs_mono:
  "os_makedirs E p s = (r, s') \<Longrightarrow> os_path_exists s q \<Longrightarrow> os_path_exists s' q"
  by (auto simp: os_makedirs_def os_path_exists_def dest: os_makedirs_key_mono)

lemma create_missing_cases:
  assumes "create_missing E (d # ds) s = (r, s')"
  obtains (present) "os_path_exists s d" "create_missing E ds s = (r, s')"
  | (failed) e where "\<not> os_path_exists s d" "os_makedirs E d s = (Inl e, s')" "r = Inl e"
  | (made) s1 where "\<not> os_path_exists s d" "os_makedirs E d s = (Inr (), s1)"
      "create_missing E ds (logging_info (''Created directory: '' @ d) s1) = (r, s')"
proof (cases "os_path_exists s d")
  case True
  with assms show ?thesis by (auto simp: create_missing.simps intro: present)
next
  case False
  obtain r1 s1 where mk: "os_makedirs E d s = (r1, s1)"
    by (cases "os_makedirs E d s") auto
  show ?thesis
  proof (cases r1)
    case (Inl e)
    with assms False mk show ?thesis by (auto simp: create_missing.simps intro: failed)
  next
    case (Inr u)
    with assms False mk show ?thesis by (auto simp: create_missing.simps intro: made)
  qed
qed

lemma create_missing_footprint:
  "create_missing E ds s = (r, s') \<Longrightarrow> \<exists>fs lg. s' = s\<lparr>entries := fs, logfile := lg\<rparr>"
proof (induction ds arbitrary: s)
  case Nil
  then have "s' = s\<lparr>entries := entries s, logfile := logfile s\<rparr>"
    by (simp add: create_missing.simps)
  then show ?case by blast
next
  case (Cons d ds)
  from Cons(2) show ?case
  proof (cases rule: create_missing_cases)
    case present
    from Cons(1)[OF present(2)] show ?thesis .
  next
    case (failed e)
    from failed(2) obtain fs where "s' = s\<lparr>entries := fs\<rparr>"
      by (auto simp: os_makedirs_def dest: os_makedirs_key_footprint)
    then have "s' = s\<lparr>entries := fs, logfile := logfile s\<rparr>" by simp
    then show ?thesis by blast
  next
    case (made s1)
    from made(2) obtain fs where s1: "s1 = s\<lparr>entries := fs\<rparr>"
      by (auto simp: os_makedirs_def dest: os_makedirs_key_footprint)
    from Cons(1)[OF made(3)] obtain fs2 lg2
      where "s' = (logging_info (''Created directory: '' @ d) s1)\<lparr>entries := fs2, logfile := lg2\<rparr>"
      by auto
    with s1 have "s' = s\<lparr>entries := fs2, logfile := lg2\<rparr>" by (simp add: logging_info_def)
    then show ?thesis by blast
  qed
qed

lemma create_missing_mono:
  "create_missing E ds s = (r, s') \<Longrightarrow> os_path_exists s q \<Longrightarrow> os_path_exists s' q"
proof (induction ds arbitrary: s)
  case Nil
  then show ?case by (simp add: create_missing.simps)
next
  case (Cons d ds)
  from Cons(2) show ?case
  proof (cases rule: create_missing_cases)
    case present
    from Cons(1)[OF present(2) Cons(3)] show ?thesis .
  next
    case (failed e)
    from os_makedirs_mono[OF failed(2) Cons(3)] show ?thesis .
  next
    case (made s1)
    from os_makedirs_mono[OF made(2) Cons(3)] have "os_path_exists s1 q" .
    then have "os_path_exists (logging_info (''Created directory: '' @ d) s1) q"
      by (simp add: os_path_exists_def logging_info_def)
    from Cons(1)[OF made(3) this] show ?thesis .
  qed
qed

lemma create_missing_exists:
  "create_missing E ds s = (Inr u, s') \<Longrightarrow> d \<in> set ds \<Longrightarrow> os_path_exists s' d"
proof (induction ds arbitrary: s)
  case Nil
  then show ?case by simp
next
  case (Cons a ds)
  from Cons(2) show ?case
  proof (cases rule: create_missing_cases)
    case present
    show ?thesis
    proof (cases "d = a")
      case True
      with create_missing_mono[OF present(2) present(1)] show ?thesis by simp
    next
      case False
      with Cons(3) have "d \<in> set ds" by simp
      from Cons(1)[OF present(2) this] show ?thesis .
    qed
  next
    case (failed e)
    then show ?thesis by simp
  next
    case (made s1)
    show ?thesis
    proof (cases "d = a")
      case True
      from os_makedirs_exists[OF made(2)]
      have "os_path_exists (logging_info (''Created directory: '' @ a) s1) a"
        by (simp add: os_path_exists_def logging_info_def)
      from create_missing_mono[OF made(3) this] True show ?thesis by simp
    next
      case False
      with Cons(3) have "d \<in> set ds" by simp
      from Cons(1)[OF made(3) this] show ?thesis .
    qed
  qed
qed

lemma create_missing_present:
  "\<forall>d \<in> set ds. os_path_exists s d \<Longrightarrow> create_missing E ds s = (Inr (), s)"
  by (induction ds) (simp_all add: create_missing.simps)

lemma create_missing_Inl: "create_missing E ds s = (Inl e, s') \<Longrightarrow> is_OSError e"
proof (induction ds arbitrary: s)
  case Nil
  then show ?case by (simp add: create_missing.simps)
next
  case (Cons d ds)
  from Cons(2) show ?case
  proof (cases rule: create_missing_cases)
    case present
    from Cons(1)[OF present(2)] show ?thesis .
  next
    case (failed e0)
    then show ?thesis by (auto simp: os_makedirs_def dest: os_makedirs_key_Inl)
  next
    case (made s1)
    from Cons(1)[OF made(3)] show ?thesis .
  qed
qed

text \<open>What a call of \<open>create_backup_directory\<close> does, in terms of the loop.\<close>

lemma create_backup_directory_unfold:
  "create_backup_directory E base_dir s =
     (let today = date_of (clock E (ticks s)) in
      case create_missing E
             [year_dir_of base_dir today, month_dir_of base_dir today, day_dir_of base_dir today]
             (s\<lparr>ticks := Suc (ticks s)\<rparr>) of
        (Inl e, s2) \<Rightarrow> (Inl e, s2)
      | (Inr u, s2) \<Rightarrow> (Inr (day_dir_of base_dir today), s2))"
  by (simp add: create_backup_directory_def read_clock_def Let_def)

lemma create_backup_directory_path:
  "create_backup_directory E base_dir s = (Inr p, s')
     \<Longrightarrow> p = day_dir_of base_dir (date_of (clock E (ticks s)))"
  by (auto simp: create_backup_directory_unfold Let_def split: prod.splits sum.splits)

lemma create_backup_directory_footprint:
  assumes "create_backup_directory E base_dir s = (r, s')"
  shows "\<exists>fs lg. s' = s\<lparr>ticks := Suc (ticks s), entries := fs, logfile := lg\<rparr>"
proof -
  let ?today = "date_of (clock E (ticks s))"
  let ?ds = "[year_dir_of base_dir ?today, month_dir_of base_dir ?today, day_dir_of base_dir ?today]"
  obtain r1 where "create_missing E ?ds (s\<lparr>ticks := Suc (ticks s)\<rparr>) = (r1, s')"
    using assms
    by (auto simp: create_backup_directory_unfold Let_def split: prod.splits sum.splits)
  from create_missing_footprint[OF this] show ?thesis by auto
qed

lemma create_backup_directory_Inl:
  "create_backup_directory E base_dir s = (Inl e, s') \<Longrightarrow> is_OSError e"
  by (auto simp: create_backup_directory_unfold Let_def split: prod.splits sum.splits
           dest: create_missing_Inl)

lemma create_backup_directory_exists:
  assumes "create_backup_directory E base_dir s = (Inr p, s')"
  shows "os_path_exists s' (year_dir_of base_dir (date_of (clock E (ticks s))))
       \<and> os_path_exists s' (month_dir_of base_dir (date_of (clock E (ticks s))))
       \<and> os_path_exists s' (day_dir_of base_dir (date_of (clock E (ticks s))))"
proof -
  let ?today = "date_of (clock E (ticks s))"
  let ?ds = "[year_dir_of base_dir ?today, month_dir_of base_dir ?today, day_dir_of base_dir ?today]"
  obtain u where run: "create_missing E ?ds (s\<lparr>ticks := Suc (ticks s)\<rparr>) = (Inr u, s')"
    using assms
    by (auto simp: create_backup_directory_unfold Let_def split: prod.splits sum.splits)
  show ?thesis
    using create_missing_exists[OF run] by simp
qed

lemma create_backup_directory_present:
  assumes "os_path_exists s (year_dir_of base_dir (date_of (clock E (ticks s))))"
    and "os_path_exists s (month_dir_of base_dir (date_of (clock E (ticks s))))"
    and "os_path_exists s (day_dir_of base_dir (date_of (clock E (ticks s))))"
  shows "create_backup_directory E base_dir s =
           (Inr (day_dir_of base_dir (date_of (clock E (ticks s)))), s\<lparr>ticks := Suc (ticks s)\<rparr>)"
proof -
  let ?s1 = "s\<lparr>ticks := Suc (ticks s)\<rparr>"
  let ?today = "date_of (clock E (ticks s))"
  let ?ds = "[year_dir_of base_dir ?today, month_dir_of base_dir ?today, day_dir_of base_dir ?today]"
  have "\<forall>d \<in> set ?ds. os_path_exists ?s1 d"
    using assms by (simp add: os_path_exists_def)
  then have "create_missing E ?ds ?s1 = (Inr (), ?s1)" by (rule create_missing_present)
  then show ?thesis by (simp add: create_backup_directory_unfold Let_def)
qed

lemma lookup_mkdir_self:
  assumes "lookup fs (ab, par) = Some Dir" and "fs (ab, c # par) = None"
  shows "lookup (fs((ab, c # par) \<mapsto> Dir)) (ab, c # par) = Some Dir"
proof -
  from lookup_mkdir_other[OF assms(2) assms(1)]
  have "lookup (fs((ab, c # par) \<mapsto> Dir)) (ab, par) = Some Dir" .
  then show ?thesis by (simp only: lookup.simps option.case node.case fun_upd_same)
qed

text \<open>One round of the loop on a directory that is missing and may be created.\<close>

lemma create_missing_step:
  assumes "resolve d = (ab, c # par)" and "lookup (entries s) (ab, par) = Some Dir"
    and "entries s (ab, c # par) = None" and "\<not> deny E (ab, c # par)"
  shows "create_missing E (d # ds) s =
           create_missing E ds (logging_info (''Created directory: '' @ d)
             (s\<lparr>entries := (entries s)((ab, c # par) \<mapsto> Dir)\<rparr>))"
proof -
  have missing: "\<not> os_path_exists s d"
    using assms(1-3) by (simp add: os_path_exists_def)
  have "os_makedirs E d s = os_mkdir E (ab, c # par) s"
    using assms(1,2) by (simp add: os_makedirs_def os_makedirs_key_parent)
  also have "\<dots> = (Inr (), s\<lparr>entries := (entries s)((ab, c # par) \<mapsto> Dir)\<rparr>)"
    using assms(2-4) by (simp add: os_mkdir.simps)
  finally show ?thesis using missing by (simp add: create_missing.simps)
qed

lemma resolve_year_dir:
  "resolve (year_dir_of base_dir today) = (isabs base_dir, str_nat (d_year today) # components base_dir)"
  by (simp add: year_dir_of_def resolve_join str_nat_nonempty str_nat_no_slash)

lemma resolve_month_dir:
  "resolve (month_dir_of base_dir today) =
     (isabs base_dir, zfill 2 (str_nat (d_month today)) # str_nat (d_year today) # components base_dir)"
proof -
  have "resolve (month_dir_of base_dir today) =
          (isabs (year_dir_of base_dir today),
           zfill 2 (str_nat (d_month today)) # components (year_dir_of base_dir today))"
    by (simp add: month_dir_of_def resolve_join zfill_nonempty zfill_no_slash)
  with resolve_year_dir[of base_dir today] show ?thesis by (simp add: resolve_def)
qed

lemma resolve_day_dir:
  "resolve (day_dir_of base_dir today) =
     (isabs base_dir, zfill 2 (str_nat (d_day today)) # zfill 2 (str_nat (d_month today))
        # str_nat (d_year today) # components base_dir)"
proof -
  have "resolve (day_dir_of base_dir today) =
          (isabs (month_dir_of base_dir today),
           zfill 2 (str_nat (d_day today)) # components (month_dir_of base_dir today))"
    by (simp add: day_dir_of_def resolve_join zfill_nonempty zfill_no_slash)
  with resolve_month_dir[of base_dir today] show ?thesis by (simp add: resolve_def)
qed

text \<open>Nothing exists below the base directory, and nothing is refused: all three are made.\<close>

lemma create_backup_directory_fresh:
  assumes base: "lookup (entries s) (resolve base_dir) = Some Dir"
    and today: "today = date_of (clock E (ticks s))"
    and free: "entries s (resolve (year_dir_of base_dir today)) = None"
      "entries s (resolve (month_dir_of base_dir today)) = None"
      "entries s (resolve (day_dir_of base_dir today)) = None"
    and allowed: "\<not> deny E (resolve (year_dir_of base_dir today))"
      "\<not> deny E (resolve (month_dir_of base_dir today))"
      "\<not> deny E (resolve (day_dir_of base_dir today))"
  shows "\<exists>s'. create_backup_directory E base_dir s = (Inr (day_dir_of base_dir today), s')
           \<and> lookup (entries s') (resolve (day_dir_of base_dir today)) = Some Dir"
proof -
  let ?ab = "isabs base_dir" and ?cb = "components base_dir"
  let ?Y = "str_nat (d_year today)" and ?M = "zfill 2 (str_nat (d_month today))"
    and ?D = "zfill 2 (str_nat (d_day today))"
  let ?ky = "(?ab, ?Y # ?cb)" and ?km = "(?ab, ?M # ?Y # ?cb)" and ?kd = "(?ab, ?D # ?M # ?Y # ?cb)"
  let ?yd = "year_dir_of base_dir today" and ?md = "month_dir_of base_dir today"
    and ?dd = "day_dir_of base_dir today"
  note ry = resolve_year_dir[of base_dir today]
  note rm = resolve_month_dir[of base_dir today]
  note rd = resolve_day_dir[of base_dir today]
  let ?s1 = "s\<lparr>ticks := Suc (ticks s)\<rparr>"
  let ?fs1 = "(entries s)(?ky \<mapsto> Dir)"
  let ?s2 = "logging_info (''Created directory: '' @ ?yd) (?s1\<lparr>entries := ?fs1\<rparr>)"
  let ?fs2 = "?fs1(?km \<mapsto> Dir)"
  let ?s3 = "logging_info (''Created directory: '' @ ?md) (?s2\<lparr>entries := ?fs2\<rparr>)"
  let ?fs3 = "?fs2(?kd \<mapsto> Dir)"
  let ?s4 = "logging_info (''Created directory: '' @ ?dd) (?s3\<lparr>entries := ?fs3\<rparr>)"
  have b: "lookup (entries s) (?ab, ?cb) = Some Dir" using base by (simp add: resolve_def)
  have fy: "entries s ?ky = None" and fm: "entries s ?km = None" and fd: "entries s ?kd = None"
    using free ry rm rd by simp_all
  have ly: "lookup ?fs1 ?ky = Some Dir" by (rule lookup_mkdir_self[OF b fy])
  have fm1: "?fs1 ?km = None" using fm by simp
  have lm: "lookup ?fs2 ?km = Some Dir" by (rule lookup_mkdir_self[OF ly fm1])
  have fd2: "?fs2 ?kd = None" using fd by simp
  have ld: "lookup ?fs3 ?kd = Some Dir" by (rule lookup_mkdir_self[OF lm fd2])
  have 1: "create_missing E [?yd, ?md, ?dd] ?s1 = create_missing E [?md, ?dd] ?s2"
    using create_missing_step[of ?yd ?ab ?Y ?cb ?s1 E "[?md, ?dd]"] ry b fy allowed(1)
    by simp
  have 2: "create_missing E [?md, ?dd] ?s2 = create_missing E [?dd] ?s3"
    using create_missing_step[of ?md ?ab ?M "?Y # ?cb" ?s2 E "[?dd]"] rm ly fm1 allowed(2)
    by (simp add: logging_info_def)
  have 3: "create_missing E [?dd] ?s3 = create_missing E [] ?s4"
    using create_missing_step[of ?dd ?ab ?D "?M # ?Y # ?cb" ?s3 E "[]"] rd lm fd2 allowed(3)
    by (simp add: logging_info_def)
  have 4: "create_missing E [] ?s4 = (Inr (), ?s4)"
    by (simp only: create_missing.simps)
  have "create_missing E [?yd, ?md, ?dd] ?s1 = (Inr (), ?s4)"
    by (rule trans[OF 1 trans[OF 2 trans[OF 3 4]]])
  then have "create_backup_directory E base_dir s = (Inr ?dd, ?s4)"
    by (simp add: create_backup_directory_unfold today[symmetric])
  moreover have "lookup (entries ?s4) (resolve ?dd) = Some Dir"
    using ld rd by (simp add: logging_info_def)
  ultimately show ?thesis by blast
qed

lemma day_dir_explicit:
  assumes "base_dir \<noteq> []" and "last base_dir \<noteq> CHR ''/''"
  shows "day_dir_of base_dir today =
           base_dir @ ''/'' @ str_nat (d_year today) @ ''/'' @ zfill 2 (str_nat (d_month today))
             @ ''/'' @ zfill 2 (str_nat (d_day today))"
proof -
  have hd: "\<And>n. hd (str_nat n) \<noteq> CHR ''/''" "\<And>w n. hd (zfill w (str_nat n)) \<noteq> CHR ''/''"
    using str_nat_no_slash str_nat_nonempty zfill_no_slash zfill_nonempty
    by (metis hd_in_set)+
  have last: "\<And>n. last (str_nat n) \<noteq> CHR ''/''" "\<And>w n. last (zfill w (str_nat n)) \<noteq> CHR ''/''"
    using str_nat_no_slash str_nat_nonempty zfill_no_slash zfill_nonempty
    by (metis last_in_set)+
  show ?thesis
    using assms hd last
    by (simp add: day_dir_of_def month_dir_of_def year_dir_of_def os_path_join_def
          str_nat_nonempty zfill_nonempty)
qed

section \<open>The partitioned directory\<close>

text \<open>
  C4. For the date \<open>today\<close> read from the clock, a call of \<open>create_backup_directory\<close>
  that returns, returns the base directory joined with the year, the month and the day,
  the month and the day padded with zeros to two digits (for a base directory that
  does not end in a separator this is \<open>base/YYYY/MM/DD\<close>). A second call on the same
  date returns the same path without error and creates nothing. The call returns without
  error when the three directories exist already, and also when none of them exists
  below an existing base directory and the filesystem allows their creation.
\<close>

theorem create_backup_directory_idempotent:
  assumes today: "today = date_of (clock E (ticks s))" and valid: "valid_date today"
  shows
    "(\<forall>p s'. create_backup_directory E base_dir s = (Inr p, s') \<longrightarrow>
        p = os_path_join (os_path_join (os_path_join base_dir (str_nat (d_year today)))
              (zfill 2 (str_nat (d_month today)))) (zfill 2 (str_nat (d_day today)))
        \<and> (date_of (clock E (ticks s')) = today \<longrightarrow>
             create_backup_directory E base_dir s' = (Inr p, s'\<lparr>ticks := Suc (ticks s')\<rparr>)))
     \<and> length (zfill 2 (str_nat (d_month today))) = 2
     \<and> length (zfill 2 (str_nat (d_day today))) = 2
     \<and> (base_dir \<noteq> [] \<and> last base_dir \<noteq> CHR ''/'' \<longrightarrow>
          day_dir_of base_dir today =
            base_dir @ ''/'' @ str_nat (d_year today) @ ''/'' @ zfill 2 (str_nat (d_month today))
              @ ''/'' @ zfill 2 (str_nat (d_day today)))
     \<and> (os_path_exists s (year_dir_of base_dir today)
          \<and> os_path_exists s (month_dir_of base_dir today)
          \<and> os_path_exists s (day_dir_of base_dir today) \<longrightarrow>
          create_backup_directory E base_dir s =
            (Inr (day_dir_of base_dir today), s\<lparr>ticks := Suc (ticks s)\<rparr>))
     \<and> (lookup (entries s) (resolve base_dir) = Some Dir
          \<and> entries s (resolve (year_dir_of base_dir today)) = None
          \<and> entries s (resolve (month_dir_of base_dir today)) = None
          \<and> entries s (resolve (day_dir_of base_dir today)) = None
          \<and> \<not> deny E (resolve (year_dir_of base_dir today))
          \<and> \<not> deny E (resolve (month_dir_of base_dir today))
          \<and> \<not> deny E (resolve (day_dir_of base_dir today)) \<longrightarrow>
          (\<exists>s'. create_backup_directory E base_dir s = (Inr (day_dir_of base_dir today), s')))"
proof -
  have again: "create_backup_directory E base_dir s' = (Inr p, s'\<lparr>ticks := Suc (ticks s')\<rparr>)"
    if run: "create_backup_directory E base_dir s = (Inr p, s')"
      and same: "date_of (clock E (ticks s')) = today" for p s'
  proof -
    from create_backup_directory_path[OF run] today have p: "p = day_dir_of base_dir today"
      by simp
    from create_backup_directory_exists[OF run] today same
    have "os_path_exists s' (year_dir_of base_dir (date_of (clock E (ticks s'))))"
      "os_path_exists s' (month_dir_of base_dir (date_of (clock E (ticks s'))))"
      "os_path_exists s' (day_dir_of base_dir (date_of (clock E (ticks s'))))"
      by simp_all
    from create_backup_directory_present[OF this] same p show ?thesis by simp
  qed
  have path: "p = os_path_join (os_path_join (os_path_join base_dir (str_nat (d_year today)))
                (zfill 2 (str_nat (d_month today)))) (zfill 2 (str_nat (d_day today)))"
    if "create_backup_directory E base_dir s = (Inr p, s')" for p s'
    using create_backup_directory_path[OF that] today
    by (simp add: day_dir_of_def month_dir_of_def year_dir_of_def)
  have first: "\<forall>p s'. create_backup_directory E base_dir s = (Inr p, s') \<longrightarrow>
        p = os_path_join (os_path_join (os_path_join base_dir (str_nat (d_year today)))
              (zfill 2 (str_nat (d_month today)))) (zfill 2 (str_nat (d_day today)))
        \<and> (date_of (clock E (ticks s')) = today \<longrightarrow>
             create_backup_directory E base_dir s' = (Inr p, s'\<lparr>ticks := Suc (ticks s')\<rparr>))"
    using again path by blast
  have month: "length (zfill 2 (str_nat (d_month today))) = 2"
    using valid by (intro length_zfill) (simp_all add: valid_date_def)
  have day: "length (zfill 2 (str_nat (d_day today))) = 2"
    using valid by (intro length_zfill) (simp_all add: valid_date_def)
  have explicit: "base_dir \<noteq> [] \<and> last base_dir \<noteq> CHR ''/'' \<longrightarrow>
          day_dir_of base_dir today =
            base_dir @ ''/'' @ str_nat (d_year today) @ ''/'' @ zfill 2 (str_nat (d_month today))
              @ ''/'' @ zfill 2 (str_nat (d_day today))"
    using day_dir_explicit[of base_dir today] by blast
  have present: "os_path_exists s (year_dir_of base_dir today)
          \<and> os_path_exists s (month_dir_of base_dir today)
          \<and> os_path_exists s (day_dir_of base_dir today) \<longrightarrow>
          create_backup_directory E base_dir s =
            (Inr (day_dir_of base_dir today), s\<lparr>ticks := Suc (ticks s)\<rparr>)"
    using create_backup_directory_present[of s base_dir E] today by simp
  have fresh: "lookup (entries s) (resolve base_dir) = Some Dir
          \<and> entries s (resolve (year_dir_of base_dir today)) = None
          \<and> entries s (resolve (month_dir_of base_dir today)) = None
          \<and> entries s (resolve (day_dir_of base_dir today)) = None
          \<and> \<not> deny E (resolve (year_dir_of base_dir today))
          \<and> \<not> deny E (resolve (month_dir_of base_dir today))
          \<and> \<not> deny E (resolve (day_dir_of base_dir today)) \<longrightarrow>
          (\<exists>s'. create_backup_directory E base_dir s = (Inr (day_dir_of base_dir today), s'))"
    using create_backup_directory_fresh[of s base_dir today E] today by blast
  from first month day explicit present fresh show ?thesis by (intro conjI)
qed

theorem create_backup_directory_idempotent_witness:
  "valid_date (date_of (clock example_env (ticks example_state)))
   \<and> lookup (entries example_state) (resolve ''/path/to/backup'') = Some Dir
   \<and> \<not> os_path_exists example_state ''/path/to/backup/2024''
   \<and> fst (create_backup_directory example_env ''/path/to/backup'' example_state)
       = Inr ''/path/to/backup/2024/03/08''
   \<and> os_path_exists (snd (create_backup_directory example_env ''/path/to/backup'' example_state))
       ''/path/to/backup/2024/03/08''
   \<and> fst (create_backup_directory example_env ''/path/to/backup''
            (snd (create_backup_directory example_env ''/path/to/backup'' example_state)))
       = Inr ''/path/to/backup/2024/03/08''"
proof -
  let ?s1 = "snd (create_backup_directory example_env ''/path/to/backup'' example_state)"
  have valid: "valid_date (date_of (clock example_env (ticks example_state)))"
    by code_simp
  have base: "lookup (entries example_state) (resolve ''/path/to/backup'') = Some Dir"
    by code_simp
  have missing: "\<not> os_path_exists example_state ''/path/to/backup/2024''"
    by code_simp
  have first: "fst (create_backup_directory example_env ''/path/to/backup'' example_state)
          = Inr ''/path/to/backup/2024/03/08''"
    by code_simp
  then have run: "create_backup_directory example_env ''/path/to/backup'' example_state
          = (Inr ''/path/to/backup/2024/03/08'', ?s1)"
    by (metis prod.collapse)
  have there: "os_path_exists ?s1 ''/path/to/backup/2024/03/08''"
    by code_simp
  have same: "date_of (clock example_env (ticks ?s1))
                = date_of (clock example_env (ticks example_state))"
    by (simp add: example_env_def)
  from create_backup_directory_idempotent[OF refl valid, of "''/path/to/backup''"] run same
  have "create_backup_directory example_env ''/path/to/backup'' ?s1
          = (Inr ''/path/to/backup/2024/03/08'', ?s1\<lparr>ticks := Suc (ticks ?s1)\<rparr>)"
    by blast
  then have second: "fst (create_backup_directory example_env ''/path/to/backup'' ?s1)
          = Inr ''/path/to/backup/2024/03/08''"
    by simp
  from valid base missing first there second show ?thesis by (intro conjI)
qed

section \<open>Facts about the notification\<close>

lemma send_email_notification_returns:
  "fst (send_email_notification E subject body from_email to_email sv pt us pw s) = Inr ()"
  by (simp add: send_email_notification_def Let_def split: prod.splits sum.splits)

lemma smtp_body_footprint:
  "smtp_body E m s = (r, s') \<Longrightarrow> \<exists>dl lg. s' = s\<lparr>delivered := dl, logfile := lg\<rparr>"
proof -
  assume run: "smtp_body E m s = (r, s')"
  then consider "s' = s" | "s' = logging_info ''Email notification sent successfully.''
      (s\<lparr>delivered := delivered s @ [m]\<rparr>)"
    by (auto simp: smtp_body_def split: option.splits)
  then show ?thesis
  proof cases
    case 1
    then have "s' = s\<lparr>delivered := delivered s, logfile := logfile s\<rparr>" by simp
    then show ?thesis by blast
  next
    case 2
    then have "s' = s\<lparr>delivered := delivered s @ [m],
      logfile := logfile s @ [(INFO, ''Email notification sent successfully.'')]\<rparr>"
      by (simp add: logging_info_def)
    then show ?thesis by blast
  qed
qed

lemma smtp_session_footprint:
  "smtp_session E m s = (r, s') \<Longrightarrow> \<exists>dl lg. s' = s\<lparr>delivered := dl, logfile := lg\<rparr>"
proof -
  assume run: "smtp_session E m s = (r, s')"
  then consider "s' = s" | r1 where "smtp_body E m s = (r1, s')"
    by (auto simp: smtp_session_def split: option.splits prod.splits)
  then show ?thesis
  proof cases
    case 1
    then have "s' = s\<lparr>delivered := delivered s, logfile := logfile s\<rparr>" by simp
    then show ?thesis by blast
  next
    case 2
    then show ?thesis by (rule smtp_body_footprint)
  qed
qed

lemma email_rebuild:
  "\<lparr>em_subject = em_subject m, em_body = em_body m, em_from = em_from m, em_to = em_to m,
    em_server = em_server m, em_port = em_port m, em_user = em_user m,
    em_password = em_password m\<rparr> = (m :: email)"
  by (cases m) simp

lemma notify_returns: "fst (notify E m s) = Inr ()"
  by (simp add: notify_def send_email_notification_returns)

lemma notify_footprint:
  "\<exists>dl lg. snd (notify E m s) = s\<lparr>attempts := attempts s @ [m], delivered := dl, logfile := lg\<rparr>"
proof -
  let ?s0 = "s\<lparr>attempts := attempts s @ [m]\<rparr>"
  obtain r s1 where run: "smtp_session E m ?s0 = (r, s1)"
    by (cases "smtp_session E m ?s0") auto
  from smtp_session_footprint[OF run] obtain dl lg
    where s1: "s1 = ?s0\<lparr>delivered := dl, logfile := lg\<rparr>" by auto
  have "snd (notify E m s) = s1 \<or> (\<exists>e. snd (notify E m s) =
      logging_error (''Failed to send email notification: '' @ str_exn e) s1)"
    using run
    by (cases r) (auto simp: notify_def send_email_notification_def Let_def email_rebuild)
  then show ?thesis
  proof
    assume "snd (notify E m s) = s1"
    with s1 show ?thesis by auto
  next
    assume "\<exists>e. snd (notify E m s) =
      logging_error (''Failed to send email notification: '' @ str_exn e) s1"
    then obtain e where "snd (notify E m s) =
      logging_error (''Failed to send email notification: '' @ str_exn e) s1" ..
    with s1 have "snd (notify E m s) = s\<lparr>attempts := attempts s @ [m], delivered := dl,
      logfile := lg @ [(ERROR, ''Failed to send email notification: '' @ str_exn e)]\<rparr>"
      by (simp add: logging_error_def)
    then show ?thesis by blast
  qed
qed

lemma notify_attempts: "attempts (snd (notify E m s)) = attempts s @ [m]"
  using notify_footprint[of E m s] by auto

lemma notify_db:
  "db_calls (snd (notify E m s)) = db_calls s \<and> open_conns (snd (notify E m s)) = open_conns s
   \<and> entries (snd (notify E m s)) = entries s \<and> ticks (snd (notify E m s)) = ticks s
   \<and> next_conn (snd (notify E m s)) = next_conn s"
  using notify_footprint[of E m s] by auto

section \<open>Facts about perform\_backup\<close>

lemmas prog_defs =
  bindP_def retP_def load_def store_def call_def effect_def try_except_def block.simps

lemma backup_steps_dir_fails:
  assumes "create_backup_directory E ''/path/to/backup'' s = (Inl e, s1)"
  shows "backup_steps E (new_frame, s) = (Inl e, config_frame, s1)"
  using assms
  by (simp add: backup_steps_def assign_configuration_def prog_defs new_frame_def config_frame_def)

lemma backup_steps_connect_fails:
  assumes "create_backup_directory E ''/path/to/backup'' s = (Inr day_dir, s1)"
    and "connect_to_sql_server E ''YOUR_SERVER'' ''YOUR_DATABASE'' ''YOUR_USERNAME''
           ''YOUR_PASSWORD'' s1 = (Inl e, s2)"
  shows "backup_steps E (new_frame, s) = (Inl e, config_frame\<lparr>v_backup_dir := Some day_dir\<rparr>, s2)"
  using assms
  by (simp add: backup_steps_def assign_configuration_def prog_defs new_frame_def config_frame_def)

lemma backup_steps_backup_fails:
  assumes "create_backup_directory E ''/path/to/backup'' s = (Inr day_dir, s1)"
    and "connect_to_sql_server E ''YOUR_SERVER'' ''YOUR_DATABASE'' ''YOUR_USERNAME''
           ''YOUR_PASSWORD'' s1 = (Inr connection, s2)"
    and "backup_database E connection ''YOUR_DATABASE'' day_dir s2 = (Inl e, s3)"
  shows "backup_steps E (new_frame, s) =
           (Inl e, config_frame\<lparr>v_backup_dir := Some day_dir, v_connection := Some connection\<rparr>, s3)"
  using assms
  by (simp add: backup_steps_def assign_configuration_def prog_defs new_frame_def config_frame_def)

lemma backup_steps_close_fails:
  assumes "create_backup_directory E ''/path/to/backup'' s = (Inr day_dir, s1)"
    and "connect_to_sql_server E ''YOUR_SERVER'' ''YOUR_DATABASE'' ''YOUR_USERNAME''
           ''YOUR_PASSWORD'' s1 = (Inr connection, s2)"
    and "backup_database E connection ''YOUR_DATABASE'' day_dir s2 = (Inr backup_path, s3)"
    and "connection_close E connection s3 = (Inl e, s4)"
  shows "backup_steps E (new_frame, s) =
           (Inl e, config_frame\<lparr>v_backup_dir := Some day_dir, v_connection := Some connection,
              v_backup_path := Some backup_path\<rparr>, s4)"
  using assms
  by (simp add: backup_steps_def assign_configuration_def prog_defs new_frame_def config_frame_def)

lemma backup_steps_succeed:
  assumes "create_backup_directory E ''/path/to/backup'' s = (Inr day_dir, s1)"
    and "connect_to_sql_server E ''YOUR_SERVER'' ''YOUR_DATABASE'' ''YOUR_USERNAME''
           ''YOUR_PASSWORD'' s1 = (Inr connection, s2)"
    and "backup_database E connection ''YOUR_DATABASE'' day_dir s2 = (Inr backup_path, s3)"
    and "connection_close E connection s3 = (Inr u, s4)"
  shows "backup_steps E (new_frame, s) =
           (Inr (), config_frame\<lparr>v_backup_dir := Some day_dir, v_connection := Some connection,
              v_backup_path := Some backup_path\<rparr>,
            logging_info ''Database connection closed.'' s4)"
  using assms
  by (simp add: backup_steps_def assign_configuration_def prog_defs new_frame_def config_frame_def)

text \<open>The five ways lines 122--144 can end.\<close>

lemma backup_steps_cases:
  obtains
    (dir_fails) e s1 where
      "create_backup_directory E ''/path/to/backup'' s = (Inl e, s1)"
      "backup_steps E (new_frame, s) = (Inl e, config_frame, s1)"
  | (connect_fails) day_dir s1 e s2 where
      "create_backup_directory E ''/path/to/backup'' s = (Inr day_dir, s1)"
      "connect_to_sql_server E ''YOUR_SERVER'' ''YOUR_DATABASE'' ''YOUR_USERNAME''
         ''YOUR_PASSWORD'' s1 = (Inl e, s2)"
      "backup_steps E (new_frame, s) = (Inl e, config_frame\<lparr>v_backup_dir := Some day_dir\<rparr>, s2)"
  | (backup_fails) day_dir s1 connection s2 e s3 where
      "create_backup_directory E ''/path/to/backup'' s = (Inr day_dir, s1)"
      "connect_to_sql_server E ''YOUR_SERVER'' ''YOUR_DATABASE'' ''YOUR_USERNAME''
         ''YOUR_PASSWORD'' s1 = (Inr connection, s2)"
      "backup_database E connection ''YOUR_DATABASE'' day_dir s2 = (Inl e, s3)"
      "backup_steps E (new_frame, s) =
         (Inl e, config_frame\<lparr>v_backup_dir := Some day_dir, v_connection := Some connection\<rparr>, s3)"
  | (close_fails) day_dir s1 connection s2 backup_path s3 e s4 where
      "create_backup_directory E ''/path/to/backup'' s = (Inr day_dir, s1)"
      "connect_to_sql_server E ''YOUR_SERVER'' ''YOUR_DATABASE'' ''YOUR_USERNAME''
         ''YOUR_PASSWORD'' s1 = (Inr connection, s2)"
      "backup_database E connection ''YOUR_DATABASE'' day_dir s2 = (Inr backup_path, s3)"
      "connection_close E connection s3 = (Inl e, s4)"
      "backup_steps E (new_frame, s) =
         (Inl e, config_frame\<lparr>v_backup_dir := Some day_dir, v_connection := Some connection,
            v_backup_path := Some backup_path\<rparr>, s4)"
  | (succeed) day_dir s1 connection s2 backup_path s3 s4 where
      "create_backup_directory E ''/path/to/backup'' s = (Inr day_dir, s1)"
      "connect_to_sql_server E ''YOUR_SERVER'' ''YOUR_DATABASE'' ''YOUR_USERNAME''
         ''YOUR_PASSWORD'' s1 = (Inr connection, s2)"
      "backup_database E connection ''YOUR_DATABASE'' day_dir s2 = (Inr backup_path, s3)"
      "connection_close E connection s3 = (Inr (), s4)"
      "backup_steps E (new_frame, s) =
         (Inr (), config_frame\<lparr>v_backup_dir := Some day_dir, v_connection := Some connection,
            v_backup_path := Some backup_path\<rparr>,
          logging_info ''Database connection closed.'' s4)"
proof -
  obtain r1 s1 where dir: "create_backup_directory E ''/path/to/backup'' s = (r1, s1)"
    by (cases "create_backup_directory E ''/path/to/backup'' s") auto
  show ?thesis
  proof (cases r1)
    case (Inl e)
    with dir backup_steps_dir_fails[of E s e s1] show ?thesis by (auto intro: dir_fails)
  next
    case dir_ok: (Inr day_dir)
    obtain r2 s2 where con: "connect_to_sql_server E ''YOUR_SERVER'' ''YOUR_DATABASE''
        ''YOUR_USERNAME'' ''YOUR_PASSWORD'' s1 = (r2, s2)"
      by (cases "connect_to_sql_server E ''YOUR_SERVER'' ''YOUR_DATABASE''
        ''YOUR_USERNAME'' ''YOUR_PASSWORD'' s1") auto
    show ?thesis
    proof (cases r2)
      case (Inl e)
      with dir dir_ok con backup_steps_connect_fails[of E s day_dir s1 e s2]
      show ?thesis by (auto intro: connect_fails)
    next
      case con_ok: (Inr connection)
      obtain r3 s3 where bak: "backup_database E connection ''YOUR_DATABASE'' day_dir s2 = (r3, s3)"
        by (cases "backup_database E connection ''YOUR_DATABASE'' day_dir s2") auto
      show ?thesis
      proof (cases r3)
        case (Inl e)
        with dir dir_ok con con_ok bak
          backup_steps_backup_fails[of E s day_dir s1 connection s2 e s3]
        show ?thesis by (auto intro: backup_fails)
      next
        case bak_ok: (Inr backup_path)
        obtain r4 s4 where clo: "connection_close E connection s3 = (r4, s4)"
          by (cases "connection_close E connection s3") auto
        show ?thesis
        proof (cases r4)
          case (Inl e)
          with dir dir_ok con con_ok bak bak_ok clo
            backup_steps_close_fails[of E s day_dir s1 connection s2 backup_path s3 e s4]
          show ?thesis by (auto intro: close_fails)
        next
          case (Inr u)
          with dir dir_ok con con_ok bak bak_ok clo
            backup_steps_succeed[of E s day_dir s1 connection s2 backup_path s3 u s4]
          show ?thesis by (auto intro: succeed)
        qed
      qed
    qed
  qed
qed

lemma backup_steps_frame:
  assumes "backup_steps E (new_frame, s) = (r, fr, s')"
  shows "handler_names_bound fr"
  using assms
  by (cases rule: backup_steps_cases[of E s])
     (auto simp: handler_names_bound_def config_frame_def)

lemma backup_steps_path:
  assumes "backup_steps E (new_frame, s) = (Inr u, fr, s')"
  shows "\<exists>p. v_backup_path fr = Some p"
  using assms by (cases rule: backup_steps_cases[of E s]) auto

lemma send_from_frame_run:
  assumes "handler_names_bound fr" and "v_subject fr = Some subject" and "v_body fr = Some body"
  shows "send_from_frame E (fr, s) =
           (Inr (), fr,
            snd (send_email_notification E subject body ''smtp_user'' ''recipient@example.com''
                   ''smtp.example.com'' 587 ''smtp_user'' ''smtp_password'' s))"
  using assms
    send_email_notification_returns[of E subject body "''smtp_user''" "''recipient@example.com''"
      "''smtp.example.com''" 587 "''smtp_user''" "''smtp_password''" s]
  by (simp add: send_from_frame_def prog_defs handler_names_bound_def case_prod_beta)

lemma notify_failure_run:
  assumes "handler_names_bound fr"
  shows "\<exists>fr'. notify_failure E e (fr, s) =
           (Inr (), fr',
            snd (notify E (failure_email e) (logging_error (''An error occurred: '' @ str_exn e) s)))"
proof -
  let ?fr' = "fr\<lparr>v_subject := Some (''Backup Failed: YOUR_DATABASE''),
    v_body := Some (''An error occurred during the backup of database YOUR_DATABASE. Error: ''
      @ str_exn e)\<rparr>"
  let ?s' = "logging_error (''An error occurred: '' @ str_exn e) s"
  have bound: "handler_names_bound ?fr'"
    using assms by (simp add: handler_names_bound_def)
  have sent: "send_from_frame E (?fr', ?s') = (Inr (), ?fr', snd (notify E (failure_email e) ?s'))"
    using send_from_frame_run[OF bound, of "''Backup Failed: YOUR_DATABASE''"
      "''An error occurred during the backup of database YOUR_DATABASE. Error: '' @ str_exn e"]
    by (simp add: notify_def failure_email_def)
  have "notify_failure E e (fr, s) = (Inr (), ?fr', snd (notify E (failure_email e) ?s'))"
    using assms sent by (simp add: notify_failure_def prog_defs handler_names_bound_def)
  then show ?thesis by blast
qed

lemma notify_success_run:
  assumes "handler_names_bound fr" and "v_backup_path fr = Some p"
  shows "\<exists>fr'. notify_success E (fr, s) = (Inr (), fr', snd (notify E (success_email p) s))"
proof -
  let ?fr' = "fr\<lparr>v_subject := Some (''Backup Success: YOUR_DATABASE''),
    v_body := Some (''Backup of database YOUR_DATABASE completed successfully. Backup file: ''
      @ p)\<rparr>"
  have bound: "handler_names_bound ?fr'"
    using assms by (simp add: handler_names_bound_def)
  have sent: "send_from_frame E (?fr', s) = (Inr (), ?fr', snd (notify E (success_email p) s))"
    using send_from_frame_run[OF bound, of "''Backup Success: YOUR_DATABASE''"
      "''Backup of database YOUR_DATABASE completed successfully. Backup file: '' @ p"]
    by (simp add: notify_def success_email_def)
  have "notify_success E (fr, s) = (Inr (), ?fr', snd (notify E (success_email p) s))"
    using assms sent by (simp add: notify_success_def prog_defs handler_names_bound_def)
  then show ?thesis by blast
qed

text \<open>What a run of \<open>perform_backup\<close> is, after the outcome of lines 122--144.\<close>

lemma perform_backup_failure:
  assumes "backup_steps E (new_frame, s) = (Inl e, fr, s1)"
  shows "perform_backup E s =
           notify E (failure_email e) (logging_error (''An error occurred: '' @ str_exn e) s1)"
proof -
  from backup_steps_frame[OF assms] have "handler_names_bound fr" .
  from notify_failure_run[OF this, of E e s1] obtain fr' where
    "notify_failure E e (fr, s1) = (Inr (), fr',
       snd (notify E (failure_email e) (logging_error (''An error occurred: '' @ str_exn e) s1)))"
    by blast
  with assms have "perform_backup E s = (Inr (),
       snd (notify E (failure_email e) (logging_error (''An error occurred: '' @ str_exn e) s1)))"
    by (simp add: perform_backup_def perform_backup_try_def prog_defs)
  then show ?thesis
    using notify_returns[of E "failure_email e"
      "logging_error (''An error occurred: '' @ str_exn e) s1"]
    by (simp add: prod_eq_iff)
qed

lemma perform_backup_success:
  assumes "backup_steps E (new_frame, s) = (Inr u, fr, s1)"
  shows "\<exists>p. v_backup_path fr = Some p \<and> perform_backup E s = notify E (success_email p) s1"
proof -
  from backup_steps_frame[OF assms] have bound: "handler_names_bound fr" .
  from backup_steps_path[OF assms] obtain p where p: "v_backup_path fr = Some p" by blast
  from notify_success_run[OF bound p, of E s1] obtain fr' where
    "notify_success E (fr, s1) = (Inr (), fr', snd (notify E (success_email p) s1))"
    by blast
  with assms have "perform_backup E s = (Inr (), snd (notify E (success_email p) s1))"
    by (simp add: perform_backup_def perform_backup_try_def prog_defs)
  then have "perform_backup E s = notify E (success_email p) s1"
    using notify_returns[of E "success_email p" s1] by (simp add: prod_eq_iff)
  with p show ?thesis by blast
qed

section \<open>Facts about the database steps\<close>

lemma connect_to_sql_server_calls:
  "db_calls (snd (connect_to_sql_server E server database username password s)) =
     db_calls s @ [Connect (connection_string_of server database username password)]"
  by (simp add: connect_to_sql_server_def pyodbc_connect_def Let_def logging_info_def
        logging_error_def split: option.splits)

lemma connect_to_sql_server_footprint:
  assumes "connect_to_sql_server E server database username password s = (r, s')"
  shows "attempts s' = attempts s \<and> entries s' = entries s \<and> ticks s' = ticks s
         \<and> delivered s' = delivered s"
  using assms
  by (auto simp: connect_to_sql_server_def pyodbc_connect_def Let_def logging_info_def
        logging_error_def split: option.splits)

lemma connect_to_sql_server_Inr:
  assumes "connect_to_sql_server E server database username password s = (Inr c, s')"
  shows "c = next_conn s \<and> open_conns s' = c # open_conns s \<and> next_conn s' = Suc c"
  using assms
  by (auto simp: connect_to_sql_server_def pyodbc_connect_def Let_def logging_info_def
        logging_error_def split: option.splits)

lemma connect_to_sql_server_Inl:
  assumes "connect_to_sql_server E server database username password s = (Inl e, s')"
  shows "open_conns s' = open_conns s \<and> next_conn s' = next_conn s"
  using assms
  by (auto simp: connect_to_sql_server_def pyodbc_connect_def Let_def logging_info_def
        logging_error_def split: option.splits)

lemma backup_database_calls:
  "\<exists>calls. db_calls (snd (backup_database E c database_name backup_dir s)) =
     db_calls s @ Cursor c # calls \<and> Close c \<notin> set calls"
  by (auto simp: backup_database_def backup_database_try_def connection_cursor_def read_clock_def
        cursor_execute_def cursor_commit_def Let_def logging_info_def logging_error_def
        split: option.splits)

lemma backup_database_footprint:
  assumes "backup_database E c database_name backup_dir s = (r, s')"
  shows "attempts s' = attempts s \<and> entries s' = entries s \<and> delivered s' = delivered s
         \<and> open_conns s' = open_conns s \<and> next_conn s' = next_conn s"
  using assms
  by (auto simp: backup_database_def backup_database_try_def connection_cursor_def read_clock_def
        cursor_execute_def cursor_commit_def Let_def logging_info_def logging_error_def
        split: option.splits)

lemma backup_database_Inr:
  assumes "backup_database E c database_name backup_dir s = (Inr p, s')"
  shows "p = os_path_join backup_dir (backup_filename_of database_name (clock E (ticks s)))
         \<and> ticks s' = Suc (ticks s)
         \<and> db_calls s' = db_calls s @ [Cursor c, Execute c (backup_sql_of database_name p), Commit c]"
  using assms
  by (auto simp: backup_database_def backup_database_try_def connection_cursor_def read_clock_def
        cursor_execute_def cursor_commit_def Let_def logging_info_def logging_error_def
        split: option.splits)

lemma connection_close_footprint:
  assumes "connection_close E c s = (r, s')"
  shows "attempts s' = attempts s \<and> entries s' = entries s \<and> delivered s' = delivered s
         \<and> ticks s' = ticks s \<and> next_conn s' = next_conn s
         \<and> db_calls s' = db_calls s @ [Close c]"
  using assms by (auto simp: connection_close_def Let_def split: option.splits)

lemma connection_close_Inr:
  assumes "connection_close E c s = (Inr u, s')"
  shows "open_conns s' = removeAll c (open_conns s)"
  using assms by (auto simp: connection_close_def Let_def split: option.splits)

lemma connection_close_Inl:
  assumes "connection_close E c s = (Inl e, s')"
  shows "open_conns s' = open_conns s"
  using assms by (auto simp: connection_close_def Let_def split: option.splits)

lemma create_backup_directory_others:
  assumes "create_backup_directory E base_dir s = (r, s')"
  shows "attempts s' = attempts s \<and> delivered s' = delivered s \<and> db_calls s' = db_calls s
         \<and> open_conns s' = open_conns s \<and> next_conn s' = next_conn s
         \<and> ticks s' = Suc (ticks s)"
  using create_backup_directory_footprint[OF assms] by auto

text \<open>Lines 122--144 attempt no notification.\<close>

lemma backup_steps_attempts:
  assumes "backup_steps E (new_frame, s) = (r, fr, s')"
  shows "attempts s' = attempts s"
  using assms
proof (cases rule: backup_steps_cases[of E s])
  case (dir_fails e s1)
  with assms create_backup_directory_others[OF dir_fails(1)] show ?thesis by simp
next
  case (connect_fails day_dir s1 e s2)
  with assms create_backup_directory_others[OF connect_fails(1)]
    connect_to_sql_server_footprint[OF connect_fails(2)] show ?thesis by simp
next
  case (backup_fails day_dir s1 connection s2 e s3)
  with assms create_backup_directory_others[OF backup_fails(1)]
    connect_to_sql_server_footprint[OF backup_fails(2)]
    backup_database_footprint[OF backup_fails(3)] show ?thesis by simp
next
  case (close_fails day_dir s1 connection s2 backup_path s3 e s4)
  with assms create_backup_directory_others[OF close_fails(1)]
    connect_to_sql_server_footprint[OF close_fails(2)]
    backup_database_footprint[OF close_fails(3)]
    connection_close_footprint[OF close_fails(4)] show ?thesis by simp
next
  case (succeed day_dir s1 connection s2 backup_path s3 s4)
  with assms create_backup_directory_others[OF succeed(1)]
    connect_to_sql_server_footprint[OF succeed(2)]
    backup_database_footprint[OF succeed(3)]
    connection_close_footprint[OF succeed(4)] show ?thesis by (auto simp: logging_info_def)
qed

text \<open>On success, the path in the frame is the one \<open>backup_database\<close> returned.\<close>

lemma backup_steps_Inr:
  assumes "backup_steps E (new_frame, s) = (Inr u, fr, s')"
  obtains day_dir s1 connection s2 backup_path s3 s4 where
    "create_backup_directory E ''/path/to/backup'' s = (Inr day_dir, s1)"
    "connect_to_sql_server E ''YOUR_SERVER'' ''YOUR_DATABASE'' ''YOUR_USERNAME''
       ''YOUR_PASSWORD'' s1 = (Inr connection, s2)"
    "backup_database E connection ''YOUR_DATABASE'' day_dir s2 = (Inr backup_path, s3)"
    "connection_close E connection s3 = (Inr (), s4)"
    "v_backup_path fr = Some backup_path"
    "s' = logging_info ''Database connection closed.'' s4"
  using assms by (cases rule: backup_steps_cases[of E s]) auto

section \<open>Exactly one notification\<close>

text \<open>
  C1. Every run of \<open>perform_backup\<close> attempts exactly one notification. When lines
  122--144 end without an exception, its subject is \<open>Backup Success: YOUR_DATABASE\<close> and
  its body ends with the path \<open>backup_database\<close> returned; when they raise \<open>e\<close>, its
  subject is \<open>Backup Failed: YOUR_DATABASE\<close> and its body ends with \<open>str(e)\<close>.
\<close>

theorem perform_backup_one_notification:
  "\<exists>m. attempts (snd (perform_backup E s)) = attempts s @ [m]
     \<and> (case backup_steps E (new_frame, s) of
          (Inr u, fr, s1) \<Rightarrow>
            (\<exists>p day_dir connection s2 s3.
               backup_database E connection ''YOUR_DATABASE'' day_dir s2 = (Inr p, s3)
               \<and> em_subject m = ''Backup Success: YOUR_DATABASE''
               \<and> em_body m =
                   ''Backup of database YOUR_DATABASE completed successfully. Backup file: '' @ p)
        | (Inl e, fr, s1) \<Rightarrow>
            em_subject m = ''Backup Failed: YOUR_DATABASE''
            \<and> em_body m =
                ''An error occurred during the backup of database YOUR_DATABASE. Error: ''
                  @ str_exn e)"
proof -
  obtain r fr s1 where steps: "backup_steps E (new_frame, s) = (r, fr, s1)"
    by (cases "backup_steps E (new_frame, s)") auto
  from backup_steps_attempts[OF steps] have quiet: "attempts s1 = attempts s" .
  show ?thesis
  proof (cases r)
    case (Inl e)
    with steps have fails: "backup_steps E (new_frame, s) = (Inl e, fr, s1)" by simp
    from perform_backup_failure[OF fails] quiet
    have "attempts (snd (perform_backup E s)) = attempts s @ [failure_email e]"
      by (simp add: notify_attempts logging_error_def)
    then show ?thesis using fails by (auto simp: failure_email_def)
  next
    case (Inr u)
    with steps have ok: "backup_steps E (new_frame, s) = (Inr u, fr, s1)" by simp
    from ok obtain day_dir connection s2 p s3 where
      bak: "backup_database E connection ''YOUR_DATABASE'' day_dir s2 = (Inr p, s3)"
      and p: "v_backup_path fr = Some p"
      by (rule backup_steps_Inr)
    from perform_backup_success[OF ok] p
    have "perform_backup E s = notify E (success_email p) s1" by auto
    with quiet have "attempts (snd (perform_backup E s)) = attempts s @ [success_email p]"
      by (simp add: notify_attempts)
    then show ?thesis using ok bak by (auto simp: success_email_def)
  qed
qed

theorem perform_backup_one_notification_witness:
  "(\<exists>m. attempts (snd (perform_backup example_env example_state)) = [m]
        \<and> em_subject m = ''Backup Success: YOUR_DATABASE'')
   \<and> (\<exists>m. attempts (snd (perform_backup db_down_env example_state)) = [m]
        \<and> em_subject m = ''Backup Failed: YOUR_DATABASE''
        \<and> em_body m = ''An error occurred during the backup of database YOUR_DATABASE. Error: Login timeout expired'')"
proof -
  have "fst (backup_steps example_env (new_frame, example_state)) = Inr ()"
    by code_simp
  then obtain fr s1 where ok: "backup_steps example_env (new_frame, example_state) = (Inr (), fr, s1)"
    by (metis prod.collapse)
  have start: "attempts example_state = []"
    by (simp add: example_state_def)
  from perform_backup_one_notification[of example_env example_state] ok start
  have 1: "\<exists>m. attempts (snd (perform_backup example_env example_state)) = [m]
        \<and> em_subject m = ''Backup Success: YOUR_DATABASE''"
    by auto
  have "fst (backup_steps db_down_env (new_frame, example_state))
          = Inl (LibraryError ''Login timeout expired'')"
    by code_simp
  then obtain fr' s1' where fails: "backup_steps db_down_env (new_frame, example_state)
      = (Inl (LibraryError ''Login timeout expired''), fr', s1')"
    by (metis prod.collapse)
  from perform_backup_one_notification[of db_down_env example_state] fails start
  have 2: "\<exists>m. attempts (snd (perform_backup db_down_env example_state)) = [m]
        \<and> em_subject m = ''Backup Failed: YOUR_DATABASE''
        \<and> em_body m = ''An error occurred during the backup of database YOUR_DATABASE. Error: Login timeout expired''"
    by auto
  from 1 2 show ?thesis by (rule conjI)
qed

section \<open>Nothing leaves the job\<close>

lemma perform_backup_returns: "fst (perform_backup E s) = Inr ()"
proof -
  obtain r fr s1 where steps: "backup_steps E (new_frame, s) = (r, fr, s1)"
    by (cases "backup_steps E (new_frame, s)") auto
  show ?thesis
  proof (cases r)
    case (Inl e)
    with steps perform_backup_failure[of E s e fr s1] show ?thesis
      by (simp add: notify_returns)
  next
    case (Inr u)
    with steps perform_backup_success[of E s u fr s1] show ?thesis
      by (auto simp: notify_returns)
  qed
qed

lemma send_email_notification_swallows:
  assumes "smtp_session E
             \<lparr>em_subject = subject, em_body = body, em_from = from_email, em_to = to_email,
              em_server = sv, em_port = pt, em_user = us, em_password = pw\<rparr>
             (s\<lparr>attempts := attempts s @
                [\<lparr>em_subject = subject, em_body = body, em_from = from_email, em_to = to_email,
                  em_server = sv, em_port = pt, em_user = us, em_password = pw\<rparr>]\<rparr>) = (Inl e, s1)"
  shows "send_email_notification E subject body from_email to_email sv pt us pw s =
           (Inr (), logging_error (''Failed to send email notification: '' @ str_exn e) s1)"
  using assms by (simp add: send_email_notification_def Let_def)

text \<open>
  C3. \<open>perform_backup\<close> returns normally in every environment and from every state,
  whatever the directory, connection, backup and delivery steps do; so does
  \<open>send_email_notification\<close>, and when its SMTP session raises \<open>e\<close> the only trace is
  the log line \<open>Failed to send email notification: e\<close>.
\<close>

theorem perform_backup_never_raises:
  "fst (perform_backup E s) = Inr ()
   \<and> fst (send_email_notification E subject body from_email to_email sv pt us pw s) = Inr ()
   \<and> (\<forall>e s1.
        smtp_session E
          \<lparr>em_subject = subject, em_body = body, em_from = from_email, em_to = to_email,
           em_server = sv, em_port = pt, em_user = us, em_password = pw\<rparr>
          (s\<lparr>attempts := attempts s @
             [\<lparr>em_subject = subject, em_body = body, em_from = from_email, em_to = to_email,
               em_server = sv, em_port = pt, em_user = us, em_password = pw\<rparr>]\<rparr>) = (Inl e, s1)
        \<longrightarrow> send_email_notification E subject body from_email to_email sv pt us pw s =
              (Inr (), logging_error (''Failed to send email notification: '' @ str_exn e) s1))"
  using perform_backup_returns[of E s]
    send_email_notification_returns[of E subject body from_email to_email sv pt us pw s]
    send_email_notification_swallows[of E subject body from_email to_email sv pt us pw s]
  by blast

theorem perform_backup_never_raises_witness:
  "smtp_session relay_down_env
     \<lparr>em_subject = ''s'', em_body = ''b'', em_from = ''f'', em_to = ''t'',
      em_server = ''smtp.example.com'', em_port = 587, em_user = ''u'', em_password = ''p''\<rparr>
     (example_state\<lparr>attempts := attempts example_state @
        [\<lparr>em_subject = ''s'', em_body = ''b'', em_from = ''f'', em_to = ''t'',
          em_server = ''smtp.example.com'', em_port = 587, em_user = ''u'',
          em_password = ''p''\<rparr>]\<rparr>)
     = (Inl (LibraryError ''Connection refused''),
        example_state\<lparr>attempts := attempts example_state @
        [\<lparr>em_subject = ''s'', em_body = ''b'', em_from = ''f'', em_to = ''t'',
          em_server = ''smtp.example.com'', em_port = 587, em_user = ''u'',
          em_password = ''p''\<rparr>]\<rparr>)
   \<and> logfile (snd (send_email_notification relay_down_env ''s'' ''b'' ''f'' ''t''
        ''smtp.example.com'' 587 ''u'' ''p'' example_state))
       = [(ERROR, ''Failed to send email notification: Connection refused'')]
   \<and> fst (send_email_notification relay_down_env ''s'' ''b'' ''f'' ''t''
        ''smtp.example.com'' 587 ''u'' ''p'' example_state) = Inr ()
   \<and> fst (perform_backup relay_down_env example_state) = Inr ()"
proof -
  let ?m = "\<lparr>em_subject = ''s'', em_body = ''b'', em_from = ''f'', em_to = ''t'',
      em_server = ''smtp.example.com'', em_port = 587, em_user = ''u'', em_password = ''p''\<rparr>"
  let ?s0 = "example_state\<lparr>attempts := attempts example_state @ [?m]\<rparr>"
  have session: "smtp_session relay_down_env ?m ?s0 = (Inl (LibraryError ''Connection refused''), ?s0)"
    by (simp add: smtp_session_def relay_down_env_def example_env_def)
  note inst = perform_backup_never_raises[of relay_down_env example_state "''s''" "''b''" "''f''"
      "''t''" "''smtp.example.com''" 587 "''u''" "''p''"]
  from inst session
  have "send_email_notification relay_down_env ''s'' ''b'' ''f'' ''t'' ''smtp.example.com'' 587
          ''u'' ''p'' example_state =
        (Inr (), logging_error (''Failed to send email notification: ''
           @ str_exn (LibraryError ''Connection refused'')) ?s0)"
    by blast
  then have logged: "logfile (snd (send_email_notification relay_down_env ''s'' ''b'' ''f'' ''t''
        ''smtp.example.com'' 587 ''u'' ''p'' example_state))
       = [(ERROR, ''Failed to send email notification: Connection refused'')]"
    by (simp add: logging_error_def example_state_def)
  from inst have "fst (send_email_notification relay_down_env ''s'' ''b'' ''f'' ''t''
        ''smtp.example.com'' 587 ''u'' ''p'' example_state) = Inr ()"
    and "fst (perform_backup relay_down_env example_state) = Inr ()"
    by blast+
  with session logged show ?thesis by (intro conjI)
qed

section \<open>Fail-fast ordering\<close>

text \<open>
  C6. When \<open>create_backup_directory\<close> raises \<open>e\<close>, the run makes no call to the
  database driver and opens no connection, reads the clock only once, and attempts one
  notification, the failure message whose body ends with \<open>str(e)\<close>. Every call of
  \<open>connect_to_sql_server\<close> and of \<open>backup_database\<close> leaves a driver call behind, so
  neither was invoked.
\<close>

theorem perform_backup_fail_fast:
  assumes "create_backup_directory E ''/path/to/backup'' s = (Inl e, s1)"
  shows "db_calls (snd (perform_backup E s)) = db_calls s
       \<and> open_conns (snd (perform_backup E s)) = open_conns s
       \<and> ticks (snd (perform_backup E s)) = Suc (ticks s)
       \<and> attempts (snd (perform_backup E s)) = attempts s @
           [\<lparr>em_subject = ''Backup Failed: YOUR_DATABASE'',
             em_body = ''An error occurred during the backup of database YOUR_DATABASE. Error: ''
               @ str_exn e,
             em_from = ''smtp_user'', em_to = ''recipient@example.com'',
             em_server = ''smtp.example.com'', em_port = 587, em_user = ''smtp_user'',
             em_password = ''smtp_password''\<rparr>]
       \<and> (\<forall>E' server database username password s0.
            db_calls (snd (connect_to_sql_server E' server database username password s0)) =
              db_calls s0 @ [Connect (connection_string_of server database username password)])
       \<and> (\<forall>E' c database_name backup_dir s0. \<exists>calls.
            db_calls (snd (backup_database E' c database_name backup_dir s0)) =
              db_calls s0 @ Cursor c # calls)"
proof -
  from backup_steps_dir_fails[OF assms]
  have "perform_backup E s =
          notify E (failure_email e) (logging_error (''An error occurred: '' @ str_exn e) s1)"
    by (rule perform_backup_failure)
  with create_backup_directory_others[OF assms]
  have "db_calls (snd (perform_backup E s)) = db_calls s"
    and "open_conns (snd (perform_backup E s)) = open_conns s"
    and "ticks (snd (perform_backup E s)) = Suc (ticks s)"
    and "attempts (snd (perform_backup E s)) = attempts s @ [failure_email e]"
    by (simp_all add: notify_db notify_attempts logging_error_def)
  moreover have "\<forall>E' c database_name backup_dir s0. \<exists>calls.
            db_calls (snd (backup_database E' c database_name backup_dir s0)) =
              db_calls s0 @ Cursor c # calls"
    using backup_database_calls by blast
  ultimately show ?thesis
    by (simp add: failure_email_def connect_to_sql_server_calls)
qed

theorem perform_backup_fail_fast_witness:
  "fst (create_backup_directory readonly_env ''/path/to/backup'' example_state) =
     Inl (OSError PermissionError (True, [''2024'', ''backup'', ''to'', ''path'']))
   \<and> db_calls (snd (perform_backup readonly_env example_state)) = []
   \<and> map em_body (attempts (snd (perform_backup readonly_env example_state))) =
       [''An error occurred during the backup of database YOUR_DATABASE. Error: [Errno 13] Permission denied: '' @ [CHR 0x27] @ ''/path/to/backup/2024'' @ [CHR 0x27]]"
proof -
  have first: "fst (create_backup_directory readonly_env ''/path/to/backup'' example_state) =
          Inl (OSError PermissionError (True, [''2024'', ''backup'', ''to'', ''path'']))"
    by code_simp
  then obtain s1 where run: "create_backup_directory readonly_env ''/path/to/backup'' example_state =
      (Inl (OSError PermissionError (True, [''2024'', ''backup'', ''to'', ''path''])), s1)"
    by (metis prod.collapse)
  from perform_backup_fail_fast[OF run]
  have "db_calls (snd (perform_backup readonly_env example_state)) = []"
    and "map em_body (attempts (snd (perform_backup readonly_env example_state))) =
       [''An error occurred during the backup of database YOUR_DATABASE. Error: [Errno 13] Permission denied: '' @ [CHR 0x27] @ ''/path/to/backup/2024'' @ [CHR 0x27]]"
    by (simp_all add: example_state_def render_def)
  with first show ?thesis by (intro conjI)
qed

section \<open>The names the handler reads\<close>

lemma assign_configuration_run:
  "assign_configuration (fr, s) =
     (Inr (),
      fr\<lparr>v_server := Some ''YOUR_SERVER'', v_database := Some ''YOUR_DATABASE'',
         v_username := Some ''YOUR_USERNAME'', v_password := Some ''YOUR_PASSWORD'',
         v_backup_dir := Some ''/path/to/backup'', v_notify_email := Some ''recipient@example.com'',
         v_smtp_server := Some ''smtp.example.com'', v_smtp_port := Some 587,
         v_smtp_user := Some ''smtp_user'', v_smtp_password := Some ''smtp_password''\<rparr>,
      s)"
  by (simp add: assign_configuration_def prog_defs)

lemma perform_backup_try_Inl:
  assumes "perform_backup_try E (new_frame, s) = (Inl e, fr, s')"
  shows "backup_steps E (new_frame, s) = (Inl e, fr, s')"
proof -
  obtain r fr1 s1 where steps: "backup_steps E (new_frame, s) = (r, fr1, s1)"
    by (cases "backup_steps E (new_frame, s)") auto
  show ?thesis
  proof (cases r)
    case (Inl e1)
    with steps assms show ?thesis by (simp add: perform_backup_try_def prog_defs)
  next
    case (Inr u)
    with steps have ok: "backup_steps E (new_frame, s) = (Inr u, fr1, s1)" by simp
    from backup_steps_path[OF ok] obtain p where "v_backup_path fr1 = Some p" by blast
    from notify_success_run[OF backup_steps_frame[OF ok] this, of E s1] obtain fr2
      where "notify_success E (fr1, s1) = (Inr (), fr2, snd (notify E (success_email p) s1))"
      by blast
    with ok assms show ?thesis by (simp add: perform_backup_try_def prog_defs)
  qed
qed

text \<open>
  C9. The ten assignments of lines 122--131 cannot raise and touch nothing but the
  frame; after them the names \<open>notify_email\<close>, \<open>database\<close>, \<open>smtp_user\<close>,
  \<open>smtp_server\<close>, \<open>smtp_port\<close> and \<open>smtp_password\<close> are bound. Whenever the
  \<^verbatim>\<open>try\<close> block raises, they are still bound in the frame the handler gets, the
  handler returns normally, and \<open>perform_backup\<close> never ends in an
  \<open>UnboundLocalError\<close>. (In a frame without the assignments the handler would raise
  one.)
\<close>

theorem handler_names_always_bound:
  "fst (assign_configuration (fr0, s0)) = Inr ()
   \<and> snd (snd (assign_configuration (fr0, s0))) = s0
   \<and> handler_names_bound (fst (snd (assign_configuration (fr0, s0))))
   \<and> (\<forall>e fr s'. perform_backup_try E (new_frame, s) = (Inl e, fr, s') \<longrightarrow>
        handler_names_bound fr \<and> fst (notify_failure E e (fr, s')) = Inr ())
   \<and> (\<forall>name. fst (perform_backup E s) \<noteq> Inl (UnboundLocalError name))
   \<and> fst (notify_failure E e0 (new_frame, s)) = Inl (UnboundLocalError ''notify_email'')"
proof -
  have 1: "fst (assign_configuration (fr0, s0)) = Inr ()"
    and 2: "snd (snd (assign_configuration (fr0, s0))) = s0"
    and 3: "handler_names_bound (fst (snd (assign_configuration (fr0, s0))))"
    by (simp_all add: assign_configuration_run handler_names_bound_def)
  have 4: "\<forall>e fr s'. perform_backup_try E (new_frame, s) = (Inl e, fr, s') \<longrightarrow>
        handler_names_bound fr \<and> fst (notify_failure E e (fr, s')) = Inr ()"
  proof (intro allI impI)
    fix e fr s'
    assume "perform_backup_try E (new_frame, s) = (Inl e, fr, s')"
    then have "backup_steps E (new_frame, s) = (Inl e, fr, s')"
      by (rule perform_backup_try_Inl)
    then have bound: "handler_names_bound fr" by (rule backup_steps_frame)
    from notify_failure_run[OF bound, of E e s'] have "fst (notify_failure E e (fr, s')) = Inr ()"
      by auto
    with bound show "handler_names_bound fr \<and> fst (notify_failure E e (fr, s')) = Inr ()" ..
  qed
  have 5: "\<forall>name. fst (perform_backup E s) \<noteq> Inl (UnboundLocalError name)"
    by (simp add: perform_backup_returns)
  have 6: "fst (notify_failure E e0 (new_frame, s)) = Inl (UnboundLocalError ''notify_email'')"
    by (simp add: notify_failure_def prog_defs new_frame_def)
  from 1 2 3 4 5 6 show ?thesis by (intro conjI)
qed

theorem handler_names_always_bound_witness:
  "fst (perform_backup_try db_down_env (new_frame, example_state))
     = Inl (LibraryError ''Login timeout expired'')
   \<and> handler_names_bound (fst (snd (perform_backup_try db_down_env (new_frame, example_state))))
   \<and> fst (notify_failure db_down_env (LibraryError ''Login timeout expired'')
            (snd (perform_backup_try db_down_env (new_frame, example_state)))) = Inr ()"
proof -
  let ?st = "snd (perform_backup_try db_down_env (new_frame, example_state))"
  have raised: "fst (perform_backup_try db_down_env (new_frame, example_state))
     = Inl (LibraryError ''Login timeout expired'')"
    by code_simp
  then have "perform_backup_try db_down_env (new_frame, example_state)
     = (Inl (LibraryError ''Login timeout expired''), fst ?st, snd ?st)"
    by (metis prod.collapse)
  with handler_names_always_bound[of new_frame example_state db_down_env example_state]
  have "handler_names_bound (fst ?st)
    \<and> fst (notify_failure db_down_env (LibraryError ''Login timeout expired'') (fst ?st, snd ?st))
        = Inr ()"
    by blast
  with raised show ?thesis by simp
qed

section \<open>The connection after a failed backup\<close>

text \<open>
  C2. The connection is closed on line 143 only, which a failing \<open>backup_database\<close>
  skips: with a backup statement that the server rejects, the run ends (after its
  failure notification) with the connection still open and without any call of
  \<open>close\<close>; the run in which the statement succeeds closes it.
\<close>

theorem perform_backup_leaves_connection_open:
  "fst (perform_backup backup_fails_env example_state) = Inr ()
   \<and> open_conns (snd (perform_backup backup_fails_env example_state)) = [0]
   \<and> Close 0 \<notin> set (db_calls (snd (perform_backup backup_fails_env example_state)))
   \<and> map em_subject (attempts (snd (perform_backup backup_fails_env example_state)))
       = [''Backup Failed: YOUR_DATABASE'']
   \<and> open_conns (snd (perform_backup example_env example_state)) = []
   \<and> last (db_calls (snd (perform_backup example_env example_state))) = Close 0"
  by code_simp

text \<open>The same in every environment: a connection that was opened stays open when the backup fails.\<close>

lemma backup_failure_leaks:
  assumes "create_backup_directory E ''/path/to/backup'' s = (Inr day_dir, s1)"
    and "connect_to_sql_server E ''YOUR_SERVER'' ''YOUR_DATABASE'' ''YOUR_USERNAME''
           ''YOUR_PASSWORD'' s1 = (Inr connection, s2)"
    and "backup_database E connection ''YOUR_DATABASE'' day_dir s2 = (Inl e, s3)"
  shows "open_conns (snd (perform_backup E s)) = connection # open_conns s"
proof -
  from backup_steps_backup_fails[OF assms]
  have "perform_backup E s =
          notify E (failure_email e) (logging_error (''An error occurred: '' @ str_exn e) s3)"
    by (rule perform_backup_failure)
  with create_backup_directory_others[OF assms(1)] connect_to_sql_server_Inr[OF assms(2)]
    backup_database_footprint[OF assms(3)]
  show ?thesis by (simp add: notify_db logging_error_def)
qed

section \<open>When the directory cannot be prepared\<close>

lemma create_missing_skip:
  "os_path_exists s d \<Longrightarrow> create_missing E (d # ds) s = create_missing E ds s"
  by (simp add: create_missing.simps)

lemma create_missing_fail:
  "\<not> os_path_exists s d \<Longrightarrow> os_makedirs E d s = (Inl e, s')
     \<Longrightarrow> create_missing E (d # ds) s = (Inl e, s')"
  by (simp add: create_missing.simps)

text \<open>A path below a regular file does not exist, and making it is refused by \<open>os_mkdir\<close>.\<close>

lemma below_file:
  assumes "resolve d = (ab, c # par)" and "lookup (entries s) (ab, par) = Some File"
  shows "\<not> os_path_exists s d"
    and "os_makedirs E d s = (Inl (OSError NotADirectoryError (ab, c # par)), s)"
  using assms
  by (simp_all add: os_path_exists_def os_makedirs_def os_makedirs_key_parent os_mkdir.simps)

text \<open>A missing path below a directory whose creation is refused.\<close>

lemma refused_below_dir:
  assumes "resolve d = (ab, c # par)" and "lookup (entries s) (ab, par) = Some Dir"
    and "\<not> os_path_exists s d" and "deny E (ab, c # par)"
  shows "os_makedirs E d s = (Inl (OSError PermissionError (ab, c # par)), s)"
  using assms
  by (simp add: os_path_exists_def os_makedirs_def os_makedirs_key_parent os_mkdir.simps)

lemma year_is_file:
  assumes "lookup (entries s) (resolve (year_dir_of base_dir today)) = Some File"
    and "today = date_of (clock E (ticks s))"
  shows "create_backup_directory E base_dir s =
           (Inl (OSError NotADirectoryError (resolve (month_dir_of base_dir today))),
            s\<lparr>ticks := Suc (ticks s)\<rparr>)"
proof -
  let ?s1 = "s\<lparr>ticks := Suc (ticks s)\<rparr>"
  let ?yd = "year_dir_of base_dir today" and ?md = "month_dir_of base_dir today"
    and ?dd = "day_dir_of base_dir today"
  note ry = resolve_year_dir[of base_dir today] and rm = resolve_month_dir[of base_dir today]
  have year: "os_path_exists ?s1 ?yd" using assms(1) by (simp add: os_path_exists_def)
  have blocked: "lookup (entries ?s1) (isabs base_dir, str_nat (d_year today) # components base_dir)
      = Some File"
    using assms(1) ry by simp
  from below_file[OF rm blocked]
  have "create_missing E [?md, ?dd] ?s1 = (Inl (OSError NotADirectoryError (resolve ?md)), ?s1)"
    by (simp add: create_missing_fail rm)
  with year have "create_missing E [?yd, ?md, ?dd] ?s1 =
      (Inl (OSError NotADirectoryError (resolve ?md)), ?s1)"
    by (simp add: create_missing_skip)
  then show ?thesis by (simp add: create_backup_directory_unfold assms(2)[symmetric])
qed

lemma month_is_file:
  assumes "lookup (entries s) (resolve (month_dir_of base_dir today)) = Some File"
    and "today = date_of (clock E (ticks s))"
  shows "create_backup_directory E base_dir s =
           (Inl (OSError NotADirectoryError (resolve (day_dir_of base_dir today))),
            s\<lparr>ticks := Suc (ticks s)\<rparr>)"
proof -
  let ?s1 = "s\<lparr>ticks := Suc (ticks s)\<rparr>"
  let ?yd = "year_dir_of base_dir today" and ?md = "month_dir_of base_dir today"
    and ?dd = "day_dir_of base_dir today"
  note ry = resolve_year_dir[of base_dir today] and rm = resolve_month_dir[of base_dir today]
    and rd = resolve_day_dir[of base_dir today]
  have month: "os_path_exists ?s1 ?md" using assms(1) by (simp add: os_path_exists_def)
  have "lookup (entries s) (resolve ?yd) = Some Dir"
    using assms(1) ry rm by (auto split: option.splits node.splits)
  then have year: "os_path_exists ?s1 ?yd" by (simp add: os_path_exists_def)
  have blocked: "lookup (entries ?s1) (isabs base_dir, zfill 2 (str_nat (d_month today))
      # str_nat (d_year today) # components base_dir) = Some File"
    using assms(1) rm by simp
  from below_file[OF rd blocked]
  have "create_missing E [?dd] ?s1 = (Inl (OSError NotADirectoryError (resolve ?dd)), ?s1)"
    by (simp add: create_missing_fail rd)
  with year month have "create_missing E [?yd, ?md, ?dd] ?s1 =
      (Inl (OSError NotADirectoryError (resolve ?dd)), ?s1)"
    by (simp add: create_missing_skip)
  then show ?thesis by (simp add: create_backup_directory_unfold assms(2)[symmetric])
qed

lemma day_exists:
  assumes "os_path_exists s (day_dir_of base_dir today)"
    and "today = date_of (clock E (ticks s))"
  shows "create_backup_directory E base_dir s =
           (Inr (day_dir_of base_dir today), s\<lparr>ticks := Suc (ticks s)\<rparr>)"
proof -
  note ry = resolve_year_dir[of base_dir today] and rm = resolve_month_dir[of base_dir today]
    and rd = resolve_day_dir[of base_dir today]
  from assms(1) rd have month: "lookup (entries s) (resolve (month_dir_of base_dir today)) = Some Dir"
    by (auto simp: os_path_exists_def rm split: option.splits node.splits)
  with rm have year: "lookup (entries s) (resolve (year_dir_of base_dir today)) = Some Dir"
    by (auto simp: ry split: option.splits node.splits)
  from month year have "os_path_exists s (year_dir_of base_dir today)"
    "os_path_exists s (month_dir_of base_dir today)"
    by (simp_all add: os_path_exists_def)
  with assms create_backup_directory_present[of s base_dir E] show ?thesis by simp
qed

lemma year_refused:
  assumes "\<not> os_path_exists s (year_dir_of base_dir today)"
    and "deny E (resolve (year_dir_of base_dir today))"
    and "today = date_of (clock E (ticks s))"
  shows "\<exists>e s'. create_backup_directory E base_dir s = (Inl e, s') \<and> is_OSError e"
proof -
  let ?s1 = "s\<lparr>ticks := Suc (ticks s)\<rparr>"
  let ?yd = "year_dir_of base_dir today" and ?md = "month_dir_of base_dir today"
    and ?dd = "day_dir_of base_dir today"
  note ry = resolve_year_dir[of base_dir today]
  have missing: "\<not> os_path_exists ?s1 ?yd" using assms(1) by (simp add: os_path_exists_def)
  from assms(2) ry
    os_makedirs_key_denied[of E "isabs base_dir" "str_nat (d_year today)" "components base_dir" ?s1]
  obtain e s' where mk: "os_makedirs E ?yd ?s1 = (Inl e, s')" and e: "is_OSError e"
    by (auto simp: os_makedirs_def)
  from create_missing_fail[OF missing mk]
  have "create_backup_directory E base_dir s = (Inl e, s')"
    by (simp add: create_backup_directory_unfold assms(3)[symmetric])
  with e show ?thesis by blast
qed

lemma month_refused:
  assumes "lookup (entries s) (resolve (year_dir_of base_dir today)) = Some Dir"
    and "\<not> os_path_exists s (month_dir_of base_dir today)"
    and "deny E (resolve (month_dir_of base_dir today))"
    and "today = date_of (clock E (ticks s))"
  shows "create_backup_directory E base_dir s =
           (Inl (OSError PermissionError (resolve (month_dir_of base_dir today))),
            s\<lparr>ticks := Suc (ticks s)\<rparr>)"
proof -
  let ?s1 = "s\<lparr>ticks := Suc (ticks s)\<rparr>"
  let ?yd = "year_dir_of base_dir today" and ?md = "month_dir_of base_dir today"
    and ?dd = "day_dir_of base_dir today"
  note ry = resolve_year_dir[of base_dir today] and rm = resolve_month_dir[of base_dir today]
  have year: "os_path_exists ?s1 ?yd" using assms(1) by (simp add: os_path_exists_def)
  have missing: "\<not> os_path_exists ?s1 ?md" using assms(2) by (simp add: os_path_exists_def)
  have parent: "lookup (entries ?s1) (isabs base_dir, str_nat (d_year today) # components base_dir)
      = Some Dir"
    using assms(1) ry by simp
  from refused_below_dir[OF rm parent missing] assms(3) rm
  have "os_makedirs E ?md ?s1 = (Inl (OSError PermissionError (resolve ?md)), ?s1)" by simp
  from create_missing_fail[OF missing this] year
  have "create_missing E [?yd, ?md, ?dd] ?s1 = (Inl (OSError PermissionError (resolve ?md)), ?s1)"
    by (simp add: create_missing_skip)
  then show ?thesis by (simp add: create_backup_directory_unfold assms(4)[symmetric])
qed

lemma day_refused:
  assumes "lookup (entries s) (resolve (month_dir_of base_dir today)) = Some Dir"
    and "\<not> os_path_exists s (day_dir_of base_dir today)"
    and "deny E (resolve (day_dir_of base_dir today))"
    and "today = date_of (clock E (ticks s))"
  shows "create_backup_directory E base_dir s =
           (Inl (OSError PermissionError (resolve (day_dir_of base_dir today))),
            s\<lparr>ticks := Suc (ticks s)\<rparr>)"
proof -
  let ?s1 = "s\<lparr>ticks := Suc (ticks s)\<rparr>"
  let ?yd = "year_dir_of base_dir today" and ?md = "month_dir_of base_dir today"
    and ?dd = "day_dir_of base_dir today"
  note ry = resolve_year_dir[of base_dir today] and rm = resolve_month_dir[of base_dir today]
    and rd = resolve_day_dir[of base_dir today]
  have month: "os_path_exists ?s1 ?md" using assms(1) by (simp add: os_path_exists_def)
  have "lookup (entries s) (resolve ?yd) = Some Dir"
    using assms(1) ry rm by (auto split: option.splits node.splits)
  then have year: "os_path_exists ?s1 ?yd" by (simp add: os_path_exists_def)
  have missing: "\<not> os_path_exists ?s1 ?dd" using assms(2) by (simp add: os_path_exists_def)
  have parent: "lookup (entries ?s1) (isabs base_dir, zfill 2 (str_nat (d_month today))
      # str_nat (d_year today) # components base_dir) = Some Dir"
    using assms(1) rm by simp
  from refused_below_dir[OF rd parent missing] assms(3) rd
  have "os_makedirs E ?dd ?s1 = (Inl (OSError PermissionError (resolve ?dd)), ?s1)" by simp
  from create_missing_fail[OF missing this] year month
  have "create_missing E [?yd, ?md, ?dd] ?s1 = (Inl (OSError PermissionError (resolve ?dd)), ?s1)"
    by (simp add: create_missing_skip)
  then show ?thesis by (simp add: create_backup_directory_unfold assms(4)[symmetric])
qed

text \<open>What the run does after the directory step has raised.\<close>

lemma run_after_directory_failure:
  assumes "create_backup_directory E ''/path/to/backup'' s = (Inl e, s1)"
  shows "is_OSError e \<and> fst (perform_backup E s) = Inr ()
       \<and> ticks (snd (perform_backup E s)) = Suc (ticks s)
       \<and> entries (snd (perform_backup E s)) = entries s1
       \<and> db_calls (snd (perform_backup E s)) = db_calls s
       \<and> attempts (snd (perform_backup E s)) = attempts s @ [failure_email e]"
proof -
  from backup_steps_dir_fails[OF assms]
  have "perform_backup E s =
          notify E (failure_email e) (logging_error (''An error occurred: '' @ str_exn e) s1)"
    by (rule perform_backup_failure)
  with create_backup_directory_others[OF assms] create_backup_directory_Inl[OF assms]
  show ?thesis
    by (simp add: notify_db notify_attempts notify_returns logging_error_def)
qed

text \<open>
  C5. A year or month segment that is a regular file makes \<open>create_backup_directory\<close>
  raise, as the lemmas \<open>year_is_file\<close> and \<open>month_is_file\<close> show for every
  environment. The day segment is not treated alike: line 71 asks \<^verbatim>\<open>os.path.exists\<close>,
  which is true of a regular file, so a day segment that is a regular file is skipped
  and its path is returned as the backup directory, with no error and no directory
  made (lemma \<open>day_exists\<close> is the general form). The function evaluated on both
  inputs:
\<close>

theorem create_backup_directory_returns_regular_file:
  "lookup (entries day_is_file_state) (resolve ''/path/to/backup/2024/03/08'') = Some File
   \<and> fst (create_backup_directory example_env ''/path/to/backup'' day_is_file_state)
       = Inr ''/path/to/backup/2024/03/08''
   \<and> lookup (entries (snd (create_backup_directory example_env ''/path/to/backup''
         day_is_file_state))) (resolve ''/path/to/backup/2024/03/08'') = Some File
   \<and> lookup (entries year_is_file_state) (resolve ''/path/to/backup/2024'') = Some File
   \<and> fst (create_backup_directory example_env ''/path/to/backup'' year_is_file_state)
       = Inl (OSError NotADirectoryError (True, [''03'', ''2024'', ''backup'', ''to'', ''path'']))"
  by code_simp

section \<open>Facts about the timestamp\<close>

lemma length_strftime_Ymd: "valid_datetime t \<Longrightarrow> length (strftime_Ymd t) = 8"
  by (simp add: strftime_Ymd_def valid_datetime_def valid_date_def date_of_def length_zfill)

lemma length_strftime_HMS: "valid_datetime t \<Longrightarrow> length (strftime_HMS t) = 6"
  by (simp add: strftime_HMS_def valid_datetime_def length_zfill)

lemma strftime_Ymd_inj:
  assumes "valid_datetime t1" and "valid_datetime t2" and "strftime_Ymd t1 = strftime_Ymd t2"
  shows "date_of t1 = date_of t2"
proof -
  have l: "length (zfill 4 (str_nat (dt_year t1))) = length (zfill 4 (str_nat (dt_year t2)))"
    "length (zfill 2 (str_nat (dt_month t1))) = length (zfill 2 (str_nat (dt_month t2)))"
    using assms(1,2)
    by (simp_all add: valid_datetime_def valid_date_def date_of_def length_zfill)
  from assms(3) l
  have "zfill 4 (str_nat (dt_year t1)) = zfill 4 (str_nat (dt_year t2))"
    "zfill 2 (str_nat (dt_month t1)) = zfill 2 (str_nat (dt_month t2))"
    "zfill 2 (str_nat (dt_day t1)) = zfill 2 (str_nat (dt_day t2))"
    by (simp_all add: strftime_Ymd_def)
  then have "dt_year t1 = dt_year t2" "dt_month t1 = dt_month t2" "dt_day t1 = dt_day t2"
    by (auto dest: zfill_inj)
  then show ?thesis by (simp add: date_of_def)
qed

lemma strftime_HMS_inj:
  assumes "valid_datetime t1" and "valid_datetime t2" and "strftime_HMS t1 = strftime_HMS t2"
  shows "dt_hour t1 = dt_hour t2 \<and> dt_minute t1 = dt_minute t2 \<and> dt_second t1 = dt_second t2"
proof -
  have l: "length (zfill 2 (str_nat (dt_hour t1))) = length (zfill 2 (str_nat (dt_hour t2)))"
    "length (zfill 2 (str_nat (dt_minute t1))) = length (zfill 2 (str_nat (dt_minute t2)))"
    using assms(1,2) by (simp_all add: valid_datetime_def length_zfill)
  from assms(3) l
  have "zfill 2 (str_nat (dt_hour t1)) = zfill 2 (str_nat (dt_hour t2))"
    "zfill 2 (str_nat (dt_minute t1)) = zfill 2 (str_nat (dt_minute t2))"
    "zfill 2 (str_nat (dt_second t1)) = zfill 2 (str_nat (dt_second t2))"
    by (simp_all add: strftime_HMS_def)
  then show ?thesis by (auto dest: zfill_inj)
qed

lemma strftime_same_second:
  assumes "valid_datetime t1" and "valid_datetime t2"
  shows "strftime_Ymd_HMS t1 = strftime_Ymd_HMS t2 \<longleftrightarrow> same_second t1 t2"
proof
  assume eq: "strftime_Ymd_HMS t1 = strftime_Ymd_HMS t2"
  have "length (strftime_Ymd t1) = length (strftime_Ymd t2)"
    using assms by (simp add: length_strftime_Ymd)
  with eq have "strftime_Ymd t1 = strftime_Ymd t2" "strftime_HMS t1 = strftime_HMS t2"
    by (simp_all add: strftime_Ymd_HMS_def)
  with assms strftime_Ymd_inj[of t1 t2] strftime_HMS_inj[of t1 t2]
  show "same_second t1 t2" by (simp add: same_second_def)
next
  assume "same_second t1 t2"
  then show "strftime_Ymd_HMS t1 = strftime_Ymd_HMS t2"
    by (simp add: same_second_def date_of_def strftime_Ymd_HMS_def strftime_Ymd_def
          strftime_HMS_def)
qed

text \<open>In one directory and for one database, the path determines the file name.\<close>

lemma os_path_join_same_prefix:
  "os_path_join dir (db @ CHR ''_'' # x) = os_path_join dir (db @ CHR ''_'' # y) \<longleftrightarrow> x = y"
proof -
  have "hd (db @ CHR ''_'' # x) = hd (db @ CHR ''_'' # y)"
    by (cases db) simp_all
  then show ?thesis by (auto simp: os_path_join_def)
qed

lemma backup_path_same_second:
  assumes "valid_datetime t1" and "valid_datetime t2"
  shows "os_path_join dir (backup_filename_of db t1) = os_path_join dir (backup_filename_of db t2)
           \<longleftrightarrow> same_second t1 t2"
proof -
  have "os_path_join dir (backup_filename_of db t1) = os_path_join dir (backup_filename_of db t2)
          \<longleftrightarrow> strftime_Ymd_HMS t1 = strftime_Ymd_HMS t2"
    using os_path_join_same_prefix[of dir db "''backup_'' @ strftime_Ymd_HMS t1 @ ''.bak''"
      "''backup_'' @ strftime_Ymd_HMS t2 @ ''.bak''"]
    by (simp add: backup_filename_of_def)
  with strftime_same_second[OF assms] show ?thesis by simp
qed

text \<open>The directory of one day never spells the date of another day.\<close>

lemma strftime_Ymd_other_day:
  assumes "valid_date d" and "valid_datetime t" and "date_of t \<noteq> d"
  shows "strftime_Ymd t \<noteq>
           str_nat (d_year d) @ zfill 2 (str_nat (d_month d)) @ zfill 2 (str_nat (d_day d))"
proof
  assume eq: "strftime_Ymd t =
      str_nat (d_year d) @ zfill 2 (str_nat (d_month d)) @ zfill 2 (str_nat (d_day d))"
  have lm: "length (zfill 2 (str_nat (d_month d))) = 2"
    and ld: "length (zfill 2 (str_nat (d_day d))) = 2"
    using assms(1) by (simp_all add: valid_date_def length_zfill)
  have "length (strftime_Ymd t) = 8" using assms(2) by (rule length_strftime_Ymd)
  with eq lm ld have ly: "length (str_nat (d_year d)) = 4" by simp
  then have y: "str_nat (d_year d) = zfill 4 (str_nat (d_year d))" by (simp add: zfill_def)
  have ly': "length (zfill 4 (str_nat (dt_year t))) = 4"
    and lm': "length (zfill 2 (str_nat (dt_month t))) = 2"
    using assms(2) by (simp_all add: valid_datetime_def valid_date_def date_of_def length_zfill)
  from eq ly ly' lm lm'
  have "zfill 4 (str_nat (dt_year t)) = str_nat (d_year d)"
    "zfill 2 (str_nat (dt_month t)) = zfill 2 (str_nat (d_month d))"
    "zfill 2 (str_nat (dt_day t)) = zfill 2 (str_nat (d_day d))"
    by (simp_all add: strftime_Ymd_def)
  then have "zfill 4 (str_nat (dt_year t)) = zfill 4 (str_nat (d_year d))"
    "zfill 2 (str_nat (dt_month t)) = zfill 2 (str_nat (d_month d))"
    "zfill 2 (str_nat (dt_day t)) = zfill 2 (str_nat (d_day d))"
    using y by simp_all
  then have "dt_year t = d_year d" "dt_month t = d_month d" "dt_day t = d_day d"
    by (auto dest: zfill_inj)
  then have "date_of t = d" by (simp add: date_of_def)
  with assms(3) show False by simp
qed

section \<open>The artifact path\<close>

text \<open>
  C7, as the specification states it, fails: two calls of \<open>backup_database\<close> whose
  clock readings differ but fall in the same second of the same day get the same
  artifact path.
\<close>

theorem backup_database_same_second_counterexample:
  "clock same_second_env (ticks example_state) \<noteq>
     clock same_second_env (ticks (snd (backup_database same_second_env 0 ''YOUR_DATABASE''
       ''/path/to/backup/2024/03/08'' example_state)))
   \<and> date_of (clock same_second_env (ticks example_state)) =
       date_of (clock same_second_env (ticks (snd (backup_database same_second_env 0
         ''YOUR_DATABASE'' ''/path/to/backup/2024/03/08'' example_state))))
   \<and> fst (backup_database same_second_env 0 ''YOUR_DATABASE'' ''/path/to/backup/2024/03/08''
         example_state)
       = Inr ''/path/to/backup/2024/03/08/YOUR_DATABASE_backup_20240308_080000.bak''
   \<and> fst (backup_database same_second_env 1 ''YOUR_DATABASE'' ''/path/to/backup/2024/03/08''
         (snd (backup_database same_second_env 0 ''YOUR_DATABASE''
            ''/path/to/backup/2024/03/08'' example_state)))
       = Inr ''/path/to/backup/2024/03/08/YOUR_DATABASE_backup_20240308_080000.bak''"
  by code_simp

text \<open>
  C7, amended. The path \<open>backup_database\<close> returns is the directory joined with
  \<open>{database}_backup_{YYYYMMDD_HHMMSS}.bak\<close>, eight digits of date and six of time
  of the clock reading it takes. For one database and one directory two calls return
  the same path exactly when their readings agree in day, hour, minute and second; so
  runs at different seconds never collide, and runs within one second do.
\<close>

theorem backup_database_artifact_path:
  assumes "backup_database E1 c1 database_name backup_dir s1 = (Inr p1, s1')"
    and "backup_database E2 c2 database_name backup_dir s2 = (Inr p2, s2')"
    and "t1 = clock E1 (ticks s1)" and "t2 = clock E2 (ticks s2)"
    and "valid_datetime t1" and "valid_datetime t2"
  shows "p1 = os_path_join backup_dir
                (database_name @ ''_backup_''
                   @ (zfill 4 (str_nat (dt_year t1)) @ zfill 2 (str_nat (dt_month t1))
                        @ zfill 2 (str_nat (dt_day t1)))
                   @ ''_''
                   @ (zfill 2 (str_nat (dt_hour t1)) @ zfill 2 (str_nat (dt_minute t1))
                        @ zfill 2 (str_nat (dt_second t1)))
                   @ ''.bak'')
       \<and> length (zfill 4 (str_nat (dt_year t1)) @ zfill 2 (str_nat (dt_month t1))
                   @ zfill 2 (str_nat (dt_day t1))) = 8
       \<and> length (zfill 2 (str_nat (dt_hour t1)) @ zfill 2 (str_nat (dt_minute t1))
                   @ zfill 2 (str_nat (dt_second t1))) = 6
       \<and> (p1 = p2 \<longleftrightarrow> same_second t1 t2)"
proof -
  from backup_database_Inr[OF assms(1)] assms(3)
  have p1: "p1 = os_path_join backup_dir (backup_filename_of database_name t1)" by simp
  from backup_database_Inr[OF assms(2)] assms(4)
  have p2: "p2 = os_path_join backup_dir (backup_filename_of database_name t2)" by simp
  have shape: "p1 = os_path_join backup_dir
                (database_name @ ''_backup_''
                   @ (zfill 4 (str_nat (dt_year t1)) @ zfill 2 (str_nat (dt_month t1))
                        @ zfill 2 (str_nat (dt_day t1)))
                   @ ''_''
                   @ (zfill 2 (str_nat (dt_hour t1)) @ zfill 2 (str_nat (dt_minute t1))
                        @ zfill 2 (str_nat (dt_second t1)))
                   @ ''.bak'')"
    using p1
    by (simp add: backup_filename_of_def strftime_Ymd_HMS_def strftime_Ymd_def strftime_HMS_def)
  have l8: "length (zfill 4 (str_nat (dt_year t1)) @ zfill 2 (str_nat (dt_month t1))
                   @ zfill 2 (str_nat (dt_day t1))) = 8"
    using length_strftime_Ymd[OF assms(5)] by (simp add: strftime_Ymd_def)
  have l6: "length (zfill 2 (str_nat (dt_hour t1)) @ zfill 2 (str_nat (dt_minute t1))
                   @ zfill 2 (str_nat (dt_second t1))) = 6"
    using length_strftime_HMS[OF assms(5)] by (simp add: strftime_HMS_def)
  have iff: "p1 = p2 \<longleftrightarrow> same_second t1 t2"
    using backup_path_same_second[OF assms(5,6), of backup_dir database_name] p1 p2 by simp
  from shape l8 l6 iff show ?thesis by (intro conjI)
qed

theorem backup_database_artifact_path_witness:
  "valid_datetime (clock example_env (ticks example_state))
   \<and> valid_datetime (clock midnight_env (ticks example_state))
   \<and> \<not> same_second (clock example_env (ticks example_state))
         (clock midnight_env (ticks example_state))
   \<and> fst (backup_database example_env 0 ''YOUR_DATABASE'' ''/path/to/backup/2024/03/08''
         example_state)
       = Inr ''/path/to/backup/2024/03/08/YOUR_DATABASE_backup_20240308_080000.bak''
   \<and> fst (backup_database midnight_env 0 ''YOUR_DATABASE'' ''/path/to/backup/2024/03/08''
         example_state)
       = Inr ''/path/to/backup/2024/03/08/YOUR_DATABASE_backup_20240308_235959.bak''
   \<and> fst (backup_database midnight_env 0 ''YOUR_DATABASE'' ''/path/to/backup/2024/03/08''
         example_state)
       \<noteq> fst (backup_database example_env 0 ''YOUR_DATABASE'' ''/path/to/backup/2024/03/08''
         example_state)"
proof -
  define r1 where "r1 = backup_database example_env 0 ''YOUR_DATABASE''
    ''/path/to/backup/2024/03/08'' example_state"
  define r2 where "r2 = backup_database midnight_env 0 ''YOUR_DATABASE''
    ''/path/to/backup/2024/03/08'' example_state"
  define P1 where "P1 = ''/path/to/backup/2024/03/08/YOUR_DATABASE_backup_20240308_080000.bak''"
  define P2 where "P2 = ''/path/to/backup/2024/03/08/YOUR_DATABASE_backup_20240308_235959.bak''"
  have v1: "valid_datetime (clock example_env (ticks example_state))"
    by (simp add: valid_datetime_def valid_date_def date_of_def example_env_def example_time_def
          example_state_def)
  have v2: "valid_datetime (clock midnight_env (ticks example_state))"
    by (simp add: valid_datetime_def valid_date_def date_of_def midnight_env_def example_env_def
          example_state_def)
  have apart: "\<not> same_second (clock example_env (ticks example_state))
         (clock midnight_env (ticks example_state))"
    by (simp add: same_second_def midnight_env_def example_env_def example_time_def
          example_state_def)
  have first: "fst r1 = Inr P1"
    unfolding r1_def P1_def by code_simp
  have second: "fst r2 = Inr P2"
    unfolding r2_def P2_def by code_simp
  from first have run1: "r1 = (Inr P1, snd r1)" by (simp add: prod_eq_iff)
  from second have run2: "r2 = (Inr P2, snd r2)" by (simp add: prod_eq_iff)
  note inst = backup_database_artifact_path[OF run1[unfolded r1_def] run2[unfolded r2_def]
      refl refl v1 v2]
  note iff = inst[THEN conjunct2, THEN conjunct2, THEN conjunct2]
  from iff apart have "P1 \<noteq> P2" by (simp only: simp_thms)
  with first second have differ: "fst r2 \<noteq> fst r1" by simp
  from v1 v2 apart first[unfolded r1_def P1_def] second[unfolded r2_def P2_def]
    differ[unfolded r1_def r2_def]
  show ?thesis by (intro conjI)
qed

section \<open>Two clock readings\<close>

text \<open>
  C10. In a run whose steps succeed, the directory is spelled from the clock reading
  \<open>create_backup_directory\<close> takes and the file name from the next reading, which
  \<open>backup_database\<close> takes: the run reads the clock twice. When the two readings fall
  on different calendar days, the eight date digits of the file name differ from the
  year, month and day of the directory it is written into.
\<close>

theorem directory_and_filename_dates:
  assumes "backup_steps E (new_frame, s) = (Inr u, fr, s')"
    and "t1 = clock E (ticks s)" and "t2 = clock E (Suc (ticks s))"
    and "valid_datetime t1" and "valid_datetime t2"
  shows "v_backup_path fr = Some
           (os_path_join
              (os_path_join (os_path_join (os_path_join ''/path/to/backup''
                 (str_nat (dt_year t1))) (zfill 2 (str_nat (dt_month t1))))
                 (zfill 2 (str_nat (dt_day t1))))
              (''YOUR_DATABASE'' @ ''_backup_'' @ strftime_Ymd t2 @ ''_'' @ strftime_HMS t2
                 @ ''.bak''))
       \<and> ticks s' = ticks s + 2
       \<and> (date_of t2 \<noteq> date_of t1 \<longrightarrow>
            strftime_Ymd t2 \<noteq>
              str_nat (dt_year t1) @ zfill 2 (str_nat (dt_month t1))
                @ zfill 2 (str_nat (dt_day t1)))"
proof -
  from assms(1) obtain day_dir s1 connection s2 backup_path s3 s4 where
    dir: "create_backup_directory E ''/path/to/backup'' s = (Inr day_dir, s1)"
    and con: "connect_to_sql_server E ''YOUR_SERVER'' ''YOUR_DATABASE'' ''YOUR_USERNAME''
       ''YOUR_PASSWORD'' s1 = (Inr connection, s2)"
    and bak: "backup_database E connection ''YOUR_DATABASE'' day_dir s2 = (Inr backup_path, s3)"
    and clo: "connection_close E connection s3 = (Inr (), s4)"
    and fr: "v_backup_path fr = Some backup_path"
    and s': "s' = logging_info ''Database connection closed.'' s4"
    by (rule backup_steps_Inr)
  from create_backup_directory_path[OF dir] assms(2)
  have d: "day_dir = day_dir_of ''/path/to/backup'' (date_of t1)" by simp
  from create_backup_directory_others[OF dir] connect_to_sql_server_footprint[OF con]
  have k2: "ticks s2 = Suc (ticks s)" by simp
  from backup_database_Inr[OF bak] k2 assms(3)
  have p: "backup_path = os_path_join day_dir (backup_filename_of ''YOUR_DATABASE'' t2)"
    and k3: "ticks s3 = Suc (Suc (ticks s))"
    by simp_all
  from connection_close_footprint[OF clo] k3 s'
  have ticks: "ticks s' = ticks s + 2" by (simp add: logging_info_def)
  have path: "v_backup_path fr = Some
           (os_path_join
              (os_path_join (os_path_join (os_path_join ''/path/to/backup''
                 (str_nat (dt_year t1))) (zfill 2 (str_nat (dt_month t1))))
                 (zfill 2 (str_nat (dt_day t1))))
              (''YOUR_DATABASE'' @ ''_backup_'' @ strftime_Ymd t2 @ ''_'' @ strftime_HMS t2
                 @ ''.bak''))"
    using fr p d
    by (simp add: day_dir_of_def month_dir_of_def year_dir_of_def date_of_def
          backup_filename_of_def strftime_Ymd_HMS_def)
  have v: "valid_date (date_of t1)" using assms(4) by (simp add: valid_datetime_def)
  have differ: "date_of t2 \<noteq> date_of t1 \<longrightarrow>
            strftime_Ymd t2 \<noteq>
              str_nat (dt_year t1) @ zfill 2 (str_nat (dt_month t1))
                @ zfill 2 (str_nat (dt_day t1))"
    using strftime_Ymd_other_day[OF v assms(5)] by (simp add: date_of_def)
  from path ticks differ show ?thesis by (intro conjI)
qed

theorem directory_and_filename_dates_witness:
  "valid_datetime (clock midnight_env (ticks example_state))
   \<and> valid_datetime (clock midnight_env (Suc (ticks example_state)))
   \<and> date_of (clock midnight_env (Suc (ticks example_state)))
       \<noteq> date_of (clock midnight_env (ticks example_state))
   \<and> fst (backup_steps midnight_env (new_frame, example_state)) = Inr ()
   \<and> v_backup_path (fst (snd (backup_steps midnight_env (new_frame, example_state))))
       = Some ''/path/to/backup/2024/03/08/YOUR_DATABASE_backup_20240309_000000.bak''
   \<and> strftime_Ymd (clock midnight_env (Suc (ticks example_state))) \<noteq> ''20240308''"
proof -
  define st where "st = backup_steps midnight_env (new_frame, example_state)"
  have v1: "valid_datetime (clock midnight_env (ticks example_state))"
    by (simp add: valid_datetime_def valid_date_def date_of_def midnight_env_def example_env_def
          example_state_def)
  have v2: "valid_datetime (clock midnight_env (Suc (ticks example_state)))"
    by (simp add: valid_datetime_def valid_date_def date_of_def midnight_env_def example_env_def
          example_state_def)
  have days: "date_of (clock midnight_env (Suc (ticks example_state)))
       \<noteq> date_of (clock midnight_env (ticks example_state))"
    by (simp add: date_of_def midnight_env_def example_env_def example_state_def)
  have ok: "fst st = Inr ()"
    unfolding st_def by code_simp
  then have run: "st = (Inr (), fst (snd st), snd (snd st))" by (simp add: prod_eq_iff)
  have spell: "os_path_join
              (os_path_join (os_path_join (os_path_join ''/path/to/backup''
                 (str_nat (dt_year (clock midnight_env (ticks example_state)))))
                 (zfill 2 (str_nat (dt_month (clock midnight_env (ticks example_state))))))
                 (zfill 2 (str_nat (dt_day (clock midnight_env (ticks example_state))))))
              (''YOUR_DATABASE'' @ ''_backup_''
                 @ strftime_Ymd (clock midnight_env (Suc (ticks example_state))) @ ''_''
                 @ strftime_HMS (clock midnight_env (Suc (ticks example_state))) @ ''.bak'')
        = ''/path/to/backup/2024/03/08/YOUR_DATABASE_backup_20240309_000000.bak''"
    by code_simp
  have dir: "str_nat (dt_year (clock midnight_env (ticks example_state)))
               @ zfill 2 (str_nat (dt_month (clock midnight_env (ticks example_state))))
               @ zfill 2 (str_nat (dt_day (clock midnight_env (ticks example_state))))
             = ''20240308''"
    by code_simp
  note inst = directory_and_filename_dates[OF run[unfolded st_def] refl refl v1 v2]
  from inst[THEN conjunct1]
  have path: "v_backup_path (fst (snd (backup_steps midnight_env (new_frame, example_state))))
       = Some ''/path/to/backup/2024/03/08/YOUR_DATABASE_backup_20240309_000000.bak''"
    by (simp only: spell)
  from inst[THEN conjunct2, THEN conjunct2] days
  have "strftime_Ymd (clock midnight_env (Suc (ticks example_state))) \<noteq>
          str_nat (dt_year (clock midnight_env (ticks example_state)))
               @ zfill 2 (str_nat (dt_month (clock midnight_env (ticks example_state))))
               @ zfill 2 (str_nat (dt_day (clock midnight_env (ticks example_state))))"
    by (rule mp)
  then have ne: "strftime_Ymd (clock midnight_env (Suc (ticks example_state))) \<noteq> ''20240308''"
    unfolding dir .
  from v1 v2 days ok[unfolded st_def] path ne show ?thesis by (intro conjI)
qed

end
